theory Spec2Isabelle
  imports Complex_Main "HOL-Library.Sublist" "HOL-Library.Log_Nat"
begin

section \<open>Python values and strings\<close>

text \<open>
  The weather dashboard (\<^verbatim>\<open>WEATHER_APP.py\<close>) passes decoded JSON around as plain
  Python objects. A value is \<^verbatim>\<open>None\<close>, a bool, an int, a float, a string, a list or
  a dict with string keys. Python's ints are unbounded; a float is kept as the rational
  it stands for. A string is kept as the bytes of its UTF-8 encoding, so a character
  outside ASCII takes two to four bytes. A dict is an association list whose first
  binding of a key is the one found.
\<close>

datatype pyval =
    PNone
  | PBool bool
  | PInt int
  | PFloat rat
  | PStr string
  | PList "pyval list"
  | PDict "(string \<times> pyval) list"

text \<open>
  The characters of a string: a byte that continues a character (\<^verbatim>\<open>0x80\<close> to
  \<^verbatim>\<open>0xBF\<close>) belongs to the character that the bytes before it began. Indexing and
  slicing a string count characters.
\<close>

definition is_cont :: "char \<Rightarrow> bool" where
  "is_cont c \<longleftrightarrow> 128 \<le> (of_char c :: nat) \<and> (of_char c :: nat) < 192"

fun code_points :: "string \<Rightarrow> string list" where
  "code_points [] = []"
| "code_points (c # cs) =
     (case code_points cs of
        [] \<Rightarrow> [[c]]
      | g # gs \<Rightarrow> if is_cont (hd g) then (c # g) # gs else [c] # g # gs)"

definition is_ascii :: "string \<Rightarrow> bool" where
  "is_ascii s \<longleftrightarrow> list_all (\<lambda>c. (of_char c :: nat) < 128) s"

text \<open>\<^verbatim>\<open>str.lower()\<close> of an ASCII letter.\<close>

definition lower_char :: "char \<Rightarrow> char" where
  "lower_char c =
     (case map_of (zip ''ABCDEFGHIJKLMNOPQRSTUVWXYZ'' ''abcdefghijklmnopqrstuvwxyz'') c of
        Some l \<Rightarrow> l
      | None \<Rightarrow> c)"

text \<open>\<^verbatim>\<open>needle in hay\<close> on strings: some suffix of \<open>hay\<close> starts with \<open>needle\<close>.\<close>

fun py_in :: "string \<Rightarrow> string \<Rightarrow> bool" where
  "py_in needle [] = (needle = [])"
| "py_in needle (c # cs) = (prefix needle (c # cs) \<or> py_in needle cs)"

text \<open>\<^verbatim>\<open>x or default\<close> on an optional string: \<^verbatim>\<open>None\<close> and \<^verbatim>\<open>""\<close> are falsy.\<close>

definition str_or :: "string option \<Rightarrow> string \<Rightarrow> string" where
  "str_or x d = (case x of None \<Rightarrow> d | Some s \<Rightarrow> if s = [] then d else s)"

text \<open>\<^verbatim>\<open>str.title()\<close> on an ASCII text: a letter that follows a letter is lowered, any
  other letter is raised; \<open>prev\<close> says whether the previous character was a letter.\<close>

definition upper_char :: "char \<Rightarrow> char" where
  "upper_char c =
     (case map_of (zip ''abcdefghijklmnopqrstuvwxyz'' ''ABCDEFGHIJKLMNOPQRSTUVWXYZ'') c of
        Some u \<Rightarrow> u
      | None \<Rightarrow> c)"

definition is_alpha :: "char \<Rightarrow> bool" where
  "is_alpha c \<longleftrightarrow>
     c \<in> set ''abcdefghijklmnopqrstuvwxyzABCDEFGHIJKLMNOPQRSTUVWXYZ''"

fun title_from :: "bool \<Rightarrow> string \<Rightarrow> string" where
  "title_from prev [] = []"
| "title_from prev (c # cs) =
     (if is_alpha c then (if prev then lower_char c else upper_char c) # title_from True cs
      else c # title_from False cs)"

text \<open>
  \<^verbatim>\<open>str.strip()\<close> removes the whitespace characters at both ends. Those are, for
  CPython 3, U+0009 to U+000D, U+001C to U+0020, U+0085, U+00A0, U+1680, U+2000 to
  U+200A, U+2028, U+2029, U+202F, U+205F and U+3000.
\<close>

definition whitespace :: "string list" where
  "whitespace =
     map (\<lambda>c. [c])
       [CHR 0x09, CHR 0x0A, CHR 0x0B, CHR 0x0C, CHR 0x0D,
        CHR 0x1C, CHR 0x1D, CHR 0x1E, CHR 0x1F, CHR 0x20] @
     [[CHR 0xC2, CHR 0x85], [CHR 0xC2, CHR 0xA0], [CHR 0xE1, CHR 0x9A, CHR 0x80]] @
     map (\<lambda>c. [CHR 0xE2, CHR 0x80, c])
       [CHR 0x80, CHR 0x81, CHR 0x82, CHR 0x83, CHR 0x84, CHR 0x85, CHR 0x86, CHR 0x87,
        CHR 0x88, CHR 0x89, CHR 0x8A, CHR 0xA8, CHR 0xA9, CHR 0xAF] @
     [[CHR 0xE2, CHR 0x81, CHR 0x9F], [CHR 0xE3, CHR 0x80, CHR 0x80]]"

definition is_space :: "string \<Rightarrow> bool" where
  "is_space cp \<longleftrightarrow> cp \<in> set whitespace"

definition str_strip :: "string \<Rightarrow> string" where
  "str_strip s =
     concat (rev (dropWhile is_space (rev (dropWhile is_space (code_points s)))))"

text \<open>Decimal notation of an int, as \<^verbatim>\<open>str\<close> prints it.\<close>

fun show_nat :: "nat \<Rightarrow> string" where
  "show_nat n =
     (if n < 10 then [''0123456789'' ! n]
      else show_nat (n div 10) @ [''0123456789'' ! (n mod 10)])"

declare show_nat.simps [simp del]

definition show_int :: "int \<Rightarrow> string" where
  "show_int i = (if i < 0 then ''-'' @ show_nat (nat (- i)) else show_nat (nat i))"

definition quoted :: "string \<Rightarrow> string" where
  "quoted s = [CHR 0x27] @ s @ [CHR 0x27]"

definition dquoted :: "string \<Rightarrow> string" where
  "dquoted s = [CHR 0x22] @ s @ [CHR 0x22]"

section \<open>Exceptions\<close>

text \<open>
  An HTTP response as \<^verbatim>\<open>requests\<close> hands it over: the status code, the text that
  \<^verbatim>\<open>raise_for_status\<close> puts into its \<^verbatim>\<open>HTTPError\<close>, and what \<^verbatim>\<open>.json()\<close> does
  (raises with a message, or returns the decoded body).
\<close>

datatype response =
  Response (status_code: nat) (error_text: string) (json_outcome: "string + pyval")

text \<open>
  A raised exception is its class and the text \<^verbatim>\<open>str(e)\<close> gives. \<^verbatim>\<open>HTTPError\<close> is
  kept apart because \<^verbatim>\<open>_background_fetch\<close> handles it apart; it carries the response,
  which \<^verbatim>\<open>requests\<close> allows to be \<^verbatim>\<open>None\<close>. The texts of the interpreter's own
  exceptions follow CPython 3.
\<close>

datatype exn_class =
    ValueError | TypeError | AttributeError | KeyError | IndexError | OverflowError
  | OSError | RequestException | JSONDecodeError

datatype exn = HTTPError string "response option" | Exn exn_class string

fun exn_str :: "exn \<Rightarrow> string" where
  "exn_str (HTTPError txt r) = txt"
| "exn_str (Exn c txt) = txt"

section \<open>Binary floating point\<close>

text \<open>
  A Python float is an IEEE 754 double; the floats of the model are the finite ones.
  \<open>round_double x\<close> is the double nearest to the rational \<open>x\<close>, ties going to the even
  significand: the significand has 53 bits, and below 2 to the power -1022 the doubles
  are 2 to the power -1074 apart. It is what a float operation returns for the exact
  result \<open>x\<close>, as long as the result is below 2 to the power 1024. \<open>to_double\<close> is the
  conversion of an int operand and the division of two ints, which raise
  \<^verbatim>\<open>OverflowError\<close> with the given text beyond that.
\<close>

definition round_half_even :: "rat \<Rightarrow> int" where
  "round_half_even x =
     (let f = \<lfloor>x\<rfloor>; d = x - of_int f
      in if d < 1 / 2 then f else if 1 / 2 < d then f + 1 else if even f then f else f + 1)"

definition pow2 :: "int \<Rightarrow> rat" where
  "pow2 e = (if 0 \<le> e then 2 ^ nat e else 1 / 2 ^ nat (- e))"

text \<open>The exponent \<open>e\<close> with \<open>pow2 e \<le> x < pow2 (e + 1)\<close>, for a positive \<open>x\<close>.\<close>

definition binade :: "rat \<Rightarrow> int" where
  "binade x =
     (let e = bitlen (fst (quotient_of x)) - bitlen (snd (quotient_of x))
      in if x < pow2 e then e - 1 else e)"

definition round_double :: "rat \<Rightarrow> rat" where
  "round_double x =
     (if x = 0 then 0
      else let u = pow2 (max (binade \<bar>x\<bar>) (- 1022) - 52)
           in sgn x * of_int (round_half_even (\<bar>x\<bar> / u)) * u)"

definition to_double :: "string \<Rightarrow> rat \<Rightarrow> exn + rat" where
  "to_double msg x =
     (if pow2 1024 \<le> \<bar>round_double x\<bar> then Inl (Exn OverflowError msg)
      else Inr (round_double x))"

definition int_too_large :: string where
  "int_too_large = ''int too large to convert to float''"

section \<open>Operations on Python values\<close>

fun type_name :: "pyval \<Rightarrow> string" where
  "type_name PNone = ''NoneType''"
| "type_name (PBool b) = ''bool''"
| "type_name (PInt i) = ''int''"
| "type_name (PFloat r) = ''float''"
| "type_name (PStr s) = ''str''"
| "type_name (PList xs) = ''list''"
| "type_name (PDict kvs) = ''dict''"

text \<open>Truthiness, as \<^verbatim>\<open>if x\<close>, \<^verbatim>\<open>x and y\<close>, \<^verbatim>\<open>x or y\<close> test it.\<close>

fun truthy :: "pyval \<Rightarrow> bool" where
  "truthy PNone = False"
| "truthy (PBool b) = b"
| "truthy (PInt i) = (i \<noteq> 0)"
| "truthy (PFloat r) = (r \<noteq> 0)"
| "truthy (PStr s) = (s \<noteq> [])"
| "truthy (PList xs) = (xs \<noteq> [])"
| "truthy (PDict kvs) = (kvs \<noteq> [])"

text \<open>The values arithmetic accepts as numbers: int, float, and bool as 0 or 1.\<close>

fun as_int :: "pyval \<Rightarrow> int option" where
  "as_int (PInt i) = Some i"
| "as_int (PBool b) = Some (if b then 1 else 0)"
| "as_int v = None"

fun as_num :: "pyval \<Rightarrow> rat option" where
  "as_num (PInt i) = Some (of_int i)"
| "as_num (PBool b) = Some (if b then 1 else 0)"
| "as_num (PFloat r) = Some r"
| "as_num v = None"

text \<open>Indexing a sequence with an int; negative indices count from the end.\<close>

definition seq_index :: "'a list \<Rightarrow> int \<Rightarrow> 'a option" where
  "seq_index xs i =
     (let n = int (length xs); j = (if i < 0 then n + i else i)
      in if 0 \<le> j \<and> j < n then Some (xs ! nat j) else None)"

datatype key = KStr string | KInt int

text \<open>\<^verbatim>\<open>cur[k]\<close>. The keys of a decoded JSON object are strings, so an int key misses.\<close>

fun subscript :: "pyval \<Rightarrow> key \<Rightarrow> exn + pyval" where
  "subscript (PDict kvs) (KStr k) =
     (case map_of kvs k of Some v \<Rightarrow> Inr v | None \<Rightarrow> Inl (Exn KeyError (quoted k)))"
| "subscript (PDict kvs) (KInt i) = Inl (Exn KeyError (show_int i))"
| "subscript (PList xs) (KInt i) =
     (case seq_index xs i of
        Some v \<Rightarrow> Inr v
      | None \<Rightarrow> Inl (Exn IndexError ''list index out of range''))"
| "subscript (PList xs) (KStr k) =
     Inl (Exn TypeError ''list indices must be integers or slices, not str'')"
| "subscript (PStr s) (KInt i) =
     (case seq_index (code_points s) i of
        Some c \<Rightarrow> Inr (PStr c)
      | None \<Rightarrow> Inl (Exn IndexError ''string index out of range''))"
| "subscript (PStr s) (KStr k) =
     Inl (Exn TypeError (''string indices must be integers, not '' @ quoted ''str''))"
| "subscript v k =
     Inl (Exn TypeError (quoted (type_name v) @ '' object is not subscriptable''))"

text \<open>\<^verbatim>\<open>safe_get\<close> (lines 49-56): walk the keys, any exception gives the default.\<close>

fun safe_get_walk :: "pyval \<Rightarrow> key list \<Rightarrow> exn + pyval" where
  "safe_get_walk cur [] = Inr cur"
| "safe_get_walk cur (k # ks) =
     (case subscript cur k of Inl e \<Rightarrow> Inl e | Inr v \<Rightarrow> safe_get_walk v ks)"

definition safe_get :: "pyval \<Rightarrow> key list \<Rightarrow> pyval \<Rightarrow> pyval" where
  "safe_get d keys dflt = (case safe_get_walk d keys of Inr v \<Rightarrow> v | Inl e \<Rightarrow> dflt)"

text \<open>The method call \<^verbatim>\<open>d.get(k, dflt)\<close>: only a dict has the method.\<close>

definition no_attribute :: "pyval \<Rightarrow> string \<Rightarrow> exn" where
  "no_attribute v a =
     Exn AttributeError (quoted (type_name v) @ '' object has no attribute '' @ quoted a)"

definition dict_get :: "pyval \<Rightarrow> string \<Rightarrow> pyval \<Rightarrow> exn + pyval" where
  "dict_get d k dflt =
     (case d of
        PDict kvs \<Rightarrow> Inr (case map_of kvs k of Some v \<Rightarrow> v | None \<Rightarrow> dflt)
      | _ \<Rightarrow> Inl (no_attribute d ''get''))"

text \<open>A string method (\<^verbatim>\<open>.lower()\<close>, \<^verbatim>\<open>.title()\<close>) called on a value.\<close>

definition str_method :: "string \<Rightarrow> (string \<Rightarrow> string) \<Rightarrow> pyval \<Rightarrow> exn + string" where
  "str_method name f v = (case v of PStr s \<Rightarrow> Inr (f s) | _ \<Rightarrow> Inl (no_attribute v name))"

text \<open>\<^verbatim>\<open>a + b\<close>. With a float operand the other operand is converted and the sum
  is a float.\<close>

definition py_add :: "pyval \<Rightarrow> pyval \<Rightarrow> exn + pyval" where
  "py_add a b =
     (case (as_int a, as_int b) of
        (Some x, Some y) \<Rightarrow> Inr (PInt (x + y))
      | _ \<Rightarrow>
        (case (as_num a, as_num b) of
           (Some x, Some y) \<Rightarrow>
             (case (to_double int_too_large x, to_double int_too_large y) of
                (Inr dx, Inr dy) \<Rightarrow> Inr (PFloat (round_double (dx + dy)))
              | (Inl e, _) \<Rightarrow> Inl e
              | (_, Inl e) \<Rightarrow> Inl e)
         | _ \<Rightarrow>
           (case (a, b) of
              (PStr s, PStr t) \<Rightarrow> Inr (PStr (s @ t))
            | (PList xs, PList ys) \<Rightarrow> Inr (PList (xs @ ys))
            | (PStr s, _) \<Rightarrow>
              Inl (Exn TypeError (''can only concatenate str (not '' @
                     dquoted (type_name b) @ '') to str''))
            | (PList xs, _) \<Rightarrow>
              Inl (Exn TypeError (''can only concatenate list (not '' @
                     dquoted (type_name b) @ '') to list''))
            | _ \<Rightarrow>
              Inl (Exn TypeError (''unsupported operand type(s) for +: '' @
                     quoted (type_name a) @ '' and '' @ quoted (type_name b))))))"

text \<open>\<^verbatim>\<open>a * 3.6\<close>: the literal is the double nearest to 3.6, the operand is converted,
  the product is a float.\<close>

definition py_mul_const :: "pyval \<Rightarrow> rat \<Rightarrow> exn + rat" where
  "py_mul_const a c =
     (case as_num a of
        Some x \<Rightarrow>
          (case to_double int_too_large x of
             Inr d \<Rightarrow> Inr (round_double (d * round_double c))
           | Inl e \<Rightarrow> Inl e)
      | None \<Rightarrow>
          (case a of
             PStr s \<Rightarrow>
               Inl (Exn TypeError (''can't multiply sequence by non-int of type '' @
                      quoted ''float''))
           | PList xs \<Rightarrow>
               Inl (Exn TypeError (''can't multiply sequence by non-int of type '' @
                      quoted ''float''))
           | _ \<Rightarrow>
               Inl (Exn TypeError (''unsupported operand type(s) for *: '' @
                      quoted (type_name a) @ '' and '' @ quoted ''float''))))"

text \<open>\<^verbatim>\<open>a / 1000\<close>: true division, of two ints or of a float by the converted int.\<close>

definition py_div_const :: "pyval \<Rightarrow> rat \<Rightarrow> exn + rat" where
  "py_div_const a c =
     (case as_num a of
        Some x \<Rightarrow> to_double ''integer division result too large for a float'' (x / c)
      | None \<Rightarrow>
          Inl (Exn TypeError (''unsupported operand type(s) for /: '' @
                 quoted (type_name a) @ '' and '' @ quoted ''int'')))"

text \<open>\<^verbatim>\<open>meters_per_sec_to_kmh\<close> (lines 58-62).\<close>

definition meters_per_sec_to_kmh :: "pyval \<Rightarrow> rat" where
  "meters_per_sec_to_kmh ms = (case py_mul_const ms (18 / 5) of Inr r \<Rightarrow> r | Inl e \<Rightarrow> 0)"

section \<open>The platform\<close>

text \<open>
  What the Python runtime and the operating system decide is a parameter of the model:
  \<^item> \<open>fixed n x\<close>: the text of \<^verbatim>\<open>format(x, ".nf")\<close> for a number \<open>x\<close>;
  \<^item> \<open>repr_of v\<close>: the text of \<^verbatim>\<open>str(v)\<close> for a float, a list or a dict;
  \<^item> \<open>aware_ok x\<close>, \<open>naive_ok x\<close>: whether \<^verbatim>\<open>datetime.fromtimestamp(x, timezone.utc)\<close>
    and \<^verbatim>\<open>datetime.fromtimestamp(x)\<close> accept the timestamp \<open>x\<close> (they raise outside the
    platform's range);
  \<^item> \<open>strftime_HM d\<close>: \<^verbatim>\<open>d.strftime("%H:%M")\<close>, in the local zone for an aware value;
  \<^item> \<open>now_ts\<close>: \<^verbatim>\<open>int(datetime.now(timezone.utc).timestamp())\<close>;
  \<^item> \<open>unicode_lower s\<close>, \<open>unicode_title s\<close>: \<^verbatim>\<open>s.lower()\<close> and \<^verbatim>\<open>s.title()\<close> for a
    text \<open>s\<close> that has a character outside ASCII (the case mappings of the
    interpreter's Unicode database);
  \<^item> \<open>float_sun_arc sunrise sunset\<close>: the items \<^verbatim>\<open>_draw_sun_arc\<close> adds after the
    background arc when one of the two timestamps is a float;
  \<^item> \<open>dict_slice_error\<close>: the exception a slice of a dict raises (a \<^verbatim>\<open>TypeError\<close> up to
    Python 3.11, a \<^verbatim>\<open>KeyError\<close> from 3.12 on).
\<close>

datatype datetime = Aware rat | Naive rat

text \<open>The items of the sun arc canvas: an arc with its start and extent in degrees, the
  dot of the sun with the angle it is placed at, and the text label.\<close>

datatype sun_item = SunArc rat rat | SunDot rat | SunText string

record platform =
  fixed :: "nat \<Rightarrow> rat \<Rightarrow> string"
  repr_of :: "pyval \<Rightarrow> string"
  aware_ok :: "rat \<Rightarrow> bool"
  naive_ok :: "rat \<Rightarrow> bool"
  strftime_HM :: "datetime \<Rightarrow> string"
  now_ts :: int
  unicode_lower :: "string \<Rightarrow> string"
  unicode_title :: "string \<Rightarrow> string"
  float_sun_arc :: "rat \<Rightarrow> rat \<Rightarrow> sun_item list"
  dict_slice_error :: exn

text \<open>\<^verbatim>\<open>s.lower()\<close> and \<^verbatim>\<open>s.title()\<close>: on an ASCII text only the letters A to Z
  and a to z have a case.\<close>

definition str_lower :: "platform \<Rightarrow> string \<Rightarrow> string" where
  "str_lower P s = (if is_ascii s then map lower_char s else unicode_lower P s)"

definition str_title :: "platform \<Rightarrow> string \<Rightarrow> string" where
  "str_title P s = (if is_ascii s then title_from False s else unicode_title P s)"

text \<open>\<^verbatim>\<open>v[:12]\<close>: lists and strings can be sliced.\<close>

definition slice12 :: "platform \<Rightarrow> pyval \<Rightarrow> exn + pyval list" where
  "slice12 P v =
     (case v of
        PList xs \<Rightarrow> Inr (take 12 xs)
      | PStr s \<Rightarrow> Inr (map PStr (take 12 (code_points s)))
      | PDict kvs \<Rightarrow> Inl (dict_slice_error P)
      | _ \<Rightarrow> Inl (Exn TypeError (quoted (type_name v) @ '' object is not subscriptable'')))"

text \<open>\<^verbatim>\<open>str(v)\<close>, which an f-string field without a format and a Tk label text use.\<close>

definition py_str :: "platform \<Rightarrow> pyval \<Rightarrow> string" where
  "py_str P v =
     (case v of
        PStr s \<Rightarrow> s
      | PNone \<Rightarrow> ''None''
      | PBool b \<Rightarrow> (if b then ''True'' else ''False'')
      | PInt i \<Rightarrow> show_int i
      | _ \<Rightarrow> repr_of P v)"

text \<open>An f-string field \<^verbatim>\<open>{v:.nf}\<close>: only numbers have the format.\<close>

definition fmt_f :: "platform \<Rightarrow> nat \<Rightarrow> pyval \<Rightarrow> exn + string" where
  "fmt_f P n v =
     (case as_num v of
        Some x \<Rightarrow> Inr (fixed P n x)
      | None \<Rightarrow>
        (case v of
           PStr s \<Rightarrow>
             Inl (Exn ValueError (''Unknown format code '' @ quoted ''f'' @
                    '' for object of type '' @ quoted ''str''))
         | _ \<Rightarrow>
             Inl (Exn TypeError (''unsupported format string passed to '' @
                    type_name v @ ''.__format__''))))"

text \<open>\<^verbatim>\<open>datetime.fromtimestamp(x, timezone.utc).astimezone()\<close> and
  \<^verbatim>\<open>datetime.fromtimestamp(x)\<close>.\<close>

definition fromtimestamp_utc :: "platform \<Rightarrow> pyval \<Rightarrow> exn + datetime" where
  "fromtimestamp_utc P v =
     (case as_num v of
        None \<Rightarrow> Inl (Exn TypeError (quoted (type_name v) @
                  '' object cannot be interpreted as an integer''))
      | Some x \<Rightarrow>
          if aware_ok P x then Inr (Aware x)
          else Inl (Exn OverflowError ''timestamp out of range for platform time_t''))"

definition fromtimestamp :: "platform \<Rightarrow> pyval \<Rightarrow> exn + datetime" where
  "fromtimestamp P v =
     (case as_num v of
        None \<Rightarrow> Inl (Exn TypeError (quoted (type_name v) @
                  '' object cannot be interpreted as an integer''))
      | Some x \<Rightarrow>
          if naive_ok P x then Inr (Naive x)
          else Inl (Exn OverflowError ''timestamp out of range for platform time_t''))"

text \<open>\<^verbatim>\<open>timestamp_to_local\<close> (lines 64-68): the handler's own call may raise.\<close>

definition timestamp_to_local :: "platform \<Rightarrow> pyval \<Rightarrow> pyval \<Rightarrow> exn + datetime" where
  "timestamp_to_local P dt_ts tz_offset =
     (case (case py_add dt_ts tz_offset of
              Inl e \<Rightarrow> Inl e
            | Inr x \<Rightarrow> fromtimestamp_utc P x) of
        Inr d \<Rightarrow> Inr d
      | Inl e \<Rightarrow> fromtimestamp P dt_ts)"

section \<open>WeatherCanvas: the condition renderer\<close>

text \<open>
  The drawing helpers compute coordinates with floating-point trigonometry and create
  Tk items. Each helper call is kept as one item that records which helper ran and with
  which argument: \<^verbatim>\<open>_draw_cloud(cover)\<close>, \<^verbatim>\<open>_draw_rain(t)\<close>, \<^verbatim>\<open>_draw_snow(t)\<close>,
  \<^verbatim>\<open>_draw_fog(t)\<close>, \<^verbatim>\<open>_draw_lightning()\<close>, \<^verbatim>\<open>_draw_sun(t)\<close>.
\<close>

datatype shape = Cloud rat | Rain nat | Snow nat | Fog nat | Lightning | Sun nat

record weather_canvas =
  stop :: bool
  anim_t :: nat
  condition :: string
  canvas :: "shape list"

text \<open>The state \<^verbatim>\<open>__init__\<close> leaves behind.\<close>

definition canvas_init :: weather_canvas where
  "canvas_init = \<lparr>stop = False, anim_t = 0, condition = ''clear'', canvas = []\<rparr>"

definition canvas_delete_all :: "weather_canvas \<Rightarrow> weather_canvas" where
  "canvas_delete_all s = s\<lparr>canvas := []\<rparr>"

definition draw_cloud :: "rat \<Rightarrow> weather_canvas \<Rightarrow> weather_canvas" where
  "draw_cloud cover s = s\<lparr>canvas := canvas s @ [Cloud cover]\<rparr>"

definition draw_rain :: "nat \<Rightarrow> weather_canvas \<Rightarrow> weather_canvas" where
  "draw_rain t s = s\<lparr>canvas := canvas s @ [Rain t]\<rparr>"

definition draw_snow :: "nat \<Rightarrow> weather_canvas \<Rightarrow> weather_canvas" where
  "draw_snow t s = s\<lparr>canvas := canvas s @ [Snow t]\<rparr>"

definition draw_fog :: "nat \<Rightarrow> weather_canvas \<Rightarrow> weather_canvas" where
  "draw_fog t s = s\<lparr>canvas := canvas s @ [Fog t]\<rparr>"

definition draw_lightning :: "weather_canvas \<Rightarrow> weather_canvas" where
  "draw_lightning s = s\<lparr>canvas := canvas s @ [Lightning]\<rparr>"

definition draw_sun :: "nat \<Rightarrow> weather_canvas \<Rightarrow> weather_canvas" where
  "draw_sun t s = s\<lparr>canvas := canvas s @ [Sun t]\<rparr>"

text \<open>\<^verbatim>\<open>set_condition\<close> (lines 95-102); the argument may be \<^verbatim>\<open>None\<close>.\<close>

definition set_condition ::
  "platform \<Rightarrow> string option \<Rightarrow> weather_canvas \<Rightarrow> weather_canvas" where
  "set_condition P cond s =
     canvas_delete_all (s\<lparr>condition := str_lower P (str_or cond ''clear''), anim_t := 0\<rparr>)"

text \<open>\<^verbatim>\<open>stop_animation\<close> (lines 104-109).\<close>

definition stop_animation :: "weather_canvas \<Rightarrow> weather_canvas" where
  "stop_animation s = canvas_delete_all (s\<lparr>stop := True\<rparr>)"

text \<open>\<^verbatim>\<open>_step\<close> (lines 120-139): clear the frame, then the first matching branch draws.\<close>

definition step :: "weather_canvas \<Rightarrow> weather_canvas" where
  "step s =
     (let cond = condition s;
          s1 = canvas_delete_all s
      in if py_in ''rain'' cond \<or> py_in ''drizzle'' cond then
           draw_rain (anim_t s1) (draw_cloud (1 / 2) s1)
         else if py_in ''snow'' cond then
           draw_snow (anim_t s1) (draw_cloud (1 / 2) s1)
         else if py_in ''cloud'' cond then
           draw_cloud (7 / 10) s1
         else if py_in ''fog'' cond \<or> py_in ''mist'' cond \<or> py_in ''haze'' cond then
           draw_fog (anim_t s1) s1
         else if py_in ''thunder'' cond \<or> py_in ''storm'' cond then
           (let s2 = draw_cloud (1 / 2) s1
            in if (anim_t s2 div 15) mod 10 = 0 then draw_lightning s2 else s2)
         else
           draw_sun (anim_t s1) s1)"

text \<open>
  \<^verbatim>\<open>_anim_loop\<close> (lines 111-118) runs on a thread of its own, while \<^verbatim>\<open>set_condition\<close>
  is called on the thread of the window. The two threads share \<^verbatim>\<open>condition\<close>,
  \<^verbatim>\<open>_anim_t\<close>, \<^verbatim>\<open>_stop\<close> and the canvas; the lock is taken by \<^verbatim>\<open>set_condition\<close> for its
  whole body and by \<^verbatim>\<open>_step\<close> only to read the condition. The position of the
  animation thread in its loop is
  \<^item> \<open>AtLoopHead\<close>: before the test of \<^verbatim>\<open>_stop\<close>;
  \<^item> \<open>Entering\<close>: in \<^verbatim>\<open>_step\<close>, before it takes the lock;
  \<^item> \<open>Stepping cond\<close>: in \<^verbatim>\<open>_step\<close>, holding the condition it read, before it draws;
  \<^item> \<open>Asleep\<close>: in \<^verbatim>\<open>time.sleep\<close>;
  \<^item> \<open>Adding v\<close>: in \<^verbatim>\<open>self._anim_t += 1\<close>, having read \<open>v\<close>, before it stores \<open>v + 1\<close>;
  \<^item> \<open>Exited\<close>: after the loop.

  The position of the window's thread is \<open>Idle\<close> outside \<^verbatim>\<open>set_condition\<close>, \<open>Resetting\<close>
  when it holds the lock and has stored the condition, \<open>Clearing\<close> when it has also
  stored 0 in \<^verbatim>\<open>_anim_t\<close>. The field \<open>ticks\<close> is no variable of the program: it lists
  the values of \<^verbatim>\<open>_anim_t\<close> the frames were drawn with, oldest first. A frame is drawn
  in one move.
\<close>

datatype anim_pc = AtLoopHead | Entering | Stepping string | Asleep | Adding nat | Exited

datatype main_pc = Idle | Resetting | Clearing

record renderer =
  shared :: weather_canvas
  apc :: anim_pc
  mpc :: main_pc
  ticks :: "nat list"

text \<open>The next move of the animation thread; it waits while the lock is held.\<close>

definition anim_move :: "renderer \<Rightarrow> renderer" where
  "anim_move r =
     (case apc r of
        AtLoopHead \<Rightarrow> if stop (shared r) then r\<lparr>apc := Exited\<rparr> else r\<lparr>apc := Entering\<rparr>
      | Entering \<Rightarrow>
          if mpc r = Idle then r\<lparr>apc := Stepping (condition (shared r))\<rparr> else r
      | Stepping cond \<Rightarrow>
          r\<lparr>shared := (shared r)\<lparr>canvas := canvas (step ((shared r)\<lparr>condition := cond\<rparr>))\<rparr>,
            ticks := ticks r @ [anim_t (shared r)],
            apc := Asleep\<rparr>
      | Asleep \<Rightarrow> r\<lparr>apc := Adding (anim_t (shared r))\<rparr>
      | Adding v \<Rightarrow> r\<lparr>shared := (shared r)\<lparr>anim_t := v + 1\<rparr>, apc := AtLoopHead\<rparr>
      | Exited \<Rightarrow> r)"

text \<open>The window's thread enters \<^verbatim>\<open>set_condition\<close> (it takes the lock and stores the
  condition), and its next move inside the call.\<close>

definition call_set_condition :: "platform \<Rightarrow> string option \<Rightarrow> renderer \<Rightarrow> renderer" where
  "call_set_condition P cond r =
     (if mpc r = Idle
      then r\<lparr>shared := (shared r)\<lparr>condition := str_lower P (str_or cond ''clear'')\<rparr>,
             mpc := Resetting\<rparr>
      else r)"

definition main_move :: "renderer \<Rightarrow> renderer" where
  "main_move r =
     (case mpc r of
        Idle \<Rightarrow> r
      | Resetting \<Rightarrow> r\<lparr>shared := (shared r)\<lparr>anim_t := 0\<rparr>, mpc := Clearing\<rparr>
      | Clearing \<Rightarrow> r\<lparr>shared := canvas_delete_all (shared r), mpc := Idle\<rparr>)"

text \<open>A schedule is the order in which the two threads move.\<close>

datatype move = Anim | Call "string option" | Main

fun do_move :: "platform \<Rightarrow> move \<Rightarrow> renderer \<Rightarrow> renderer" where
  "do_move P Anim r = anim_move r"
| "do_move P (Call cond) r = call_set_condition P cond r"
| "do_move P Main r = main_move r"

definition run :: "platform \<Rightarrow> move list \<Rightarrow> renderer \<Rightarrow> renderer" where
  "run P ms r = fold (do_move P) ms r"

text \<open>The animation thread has incremented the counter and not yet drawn the next
  frame.\<close>

definition drawing_next :: "renderer \<Rightarrow> bool" where
  "drawing_next r =
     (case apc r of
        AtLoopHead \<Rightarrow> True
      | Entering \<Rightarrow> True
      | Stepping cond \<Rightarrow> True
      | _ \<Rightarrow> False)"

text \<open>The renderer after \<^verbatim>\<open>__init__\<close>: the thread is started and has not moved.\<close>

definition renderer_init :: renderer where
  "renderer_init = \<lparr>shared = canvas_init, apc = AtLoopHead, mpc = Idle, ticks = []\<rparr>"

text \<open>
  The six scene categories and the rule that chooses among them, in the words of the
  specification (section 4.4): containing means an occurrence as a contiguous substring.
\<close>

datatype scene = RainScene | SnowScene | CloudScene | FogScene | ThunderScene | SunScene

definition spec_scene :: "string \<Rightarrow> scene" where
  "spec_scene kw =
     (if sublist ''rain'' kw \<or> sublist ''drizzle'' kw then RainScene
      else if sublist ''snow'' kw then SnowScene
      else if sublist ''cloud'' kw then CloudScene
      else if sublist ''fog'' kw \<or> sublist ''mist'' kw \<or> sublist ''haze'' kw then FogScene
      else if sublist ''thunder'' kw \<or> sublist ''storm'' kw then ThunderScene
      else SunScene)"

text \<open>What a frame of each scene holds at tick \<open>t\<close>.\<close>

fun scene_items :: "scene \<Rightarrow> nat \<Rightarrow> shape list" where
  "scene_items RainScene t = [Cloud (1 / 2), Rain t]"
| "scene_items SnowScene t = [Cloud (1 / 2), Snow t]"
| "scene_items CloudScene t = [Cloud (7 / 10)]"
| "scene_items FogScene t = [Fog t]"
| "scene_items ThunderScene t =
     Cloud (1 / 2) # (if (t div 15) mod 10 = 0 then [Lightning] else [])"
| "scene_items SunScene t = [Sun t]"

section \<open>The dashboard\<close>

text \<open>
  The non-ASCII literals of the source (a degree sign, a dash, the stat and forecast
  icons) are kept as the UTF-8 bytes the source file holds for them.
\<close>

definition glyph_deg :: string where
  "glyph_deg =
     [CHR 0xC2, CHR 0xAC, CHR 0xE2, CHR 0x88, CHR 0x9E]"

definition glyph_dash :: string where
  "glyph_dash =
     [CHR 0xE2, CHR 0x80, CHR 0x9A, CHR 0xC3, CHR 0x84, CHR 0xC3, CHR 0xAE]"

definition glyph_humidity :: string where
  "glyph_humidity =
     [CHR 0xEF, CHR 0xA3, CHR 0xBF, CHR 0xC3, CHR 0xBC, CHR 0xC3, CHR 0xAD, CHR 0xC3,
      CHR 0x9F]"

definition glyph_wind :: string where
  "glyph_wind =
     [CHR 0xEF, CHR 0xA3, CHR 0xBF, CHR 0xC3, CHR 0xBC, CHR 0xC3, CHR 0xAD, CHR 0xC2,
      CHR 0xAE]"

definition glyph_pressure :: string where
  "glyph_pressure =
     [CHR 0xEF, CHR 0xA3, CHR 0xBF, CHR 0xC3, CHR 0xBC, CHR 0xC3, CHR 0x9F, CHR 0xE2,
      CHR 0x89, CHR 0xA0]"

definition glyph_visibility :: string where
  "glyph_visibility =
     [CHR 0xEF, CHR 0xA3, CHR 0xBF, CHR 0xC3, CHR 0xBC, CHR 0xC3, CHR 0xAB, CHR 0xC3,
      CHR 0x85]"

definition icon_sun :: string where
  "icon_sun =
     [CHR 0xE2, CHR 0x80, CHR 0x9A, CHR 0xC3, CHR 0xB2, CHR 0xC3, CHR 0x84, CHR 0xC3,
      CHR 0x94, CHR 0xE2, CHR 0x88, CHR 0x8F, CHR 0xC3, CHR 0xA8]"

definition icon_rain :: string where
  "icon_rain =
     [CHR 0xEF, CHR 0xA3, CHR 0xBF, CHR 0xC3, CHR 0xBC, CHR 0xC3, CHR 0xA5, CHR 0xC3,
      CHR 0x9F, CHR 0xC3, CHR 0x94, CHR 0xE2, CHR 0x88, CHR 0x8F, CHR 0xC3, CHR 0xA8]"

definition icon_cloud :: string where
  "icon_cloud =
     [CHR 0xE2, CHR 0x80, CHR 0x9A, CHR 0xC3, CHR 0xB2, CHR 0xC3, CHR 0x85, CHR 0xC3,
      CHR 0x94, CHR 0xE2, CHR 0x88, CHR 0x8F, CHR 0xC3, CHR 0xA8]"

definition icon_snow :: string where
  "icon_snow =
     [CHR 0xE2, CHR 0x80, CHR 0x9A, CHR 0xC3, CHR 0xB9, CHR 0xC3, CHR 0x91, CHR 0xC3,
      CHR 0x94, CHR 0xE2, CHR 0x88, CHR 0x8F, CHR 0xC3, CHR 0xA8]"

definition icon_fog :: string where
  "icon_fog =
     [CHR 0xEF, CHR 0xA3, CHR 0xBF, CHR 0xC3, CHR 0xBC, CHR 0xC3, CHR 0xA5, CHR 0xC2,
      CHR 0xB4, CHR 0xC3, CHR 0x94, CHR 0xE2, CHR 0x88, CHR 0x8F, CHR 0xC3, CHR 0xA8]"

text \<open>
  The window's state: the text of every label the update writes, the items of the sun
  arc canvas, the hourly cards (each card the texts of the labels packed into its frame,
  in order), the renderer, the result queue of \<^verbatim>\<open>(typ, payload)\<close> pairs,
  \<^verbatim>\<open>current_data\<close>, the search box, the callbacks pending in \<^verbatim>\<open>self.after\<close>, the
  locations of the worker threads started, and the texts of labels that were created
  with the window as parent and never placed (line 413).
\<close>

datatype callback = OnSearch | ProcessQueue

record dashboard =
  lbl_location :: string
  lbl_temp :: string
  lbl_feels :: string
  lbl_descr :: string
  stat_humidity :: string
  stat_wind :: string
  stat_pressure :: string
  stat_visibility :: string
  sun_canvas :: "sun_item list"
  sunrise_label :: string
  sunset_label :: string
  hourly_container :: "string list list"
  status_label :: string
  weather_canvas :: weather_canvas
  queue :: "(string \<times> pyval) list"
  current_data :: pyval
  search_var :: string
  timers :: "(nat \<times> callback) list"
  workers :: "string list"
  unplaced_labels :: "string list"

text \<open>The state \<^verbatim>\<open>WeatherDashboard.__init__\<close> leaves behind (lines 240-346).\<close>

definition dashboard_init :: dashboard where
  "dashboard_init =
     \<lparr>lbl_location = ''Location '' @ glyph_dash,
      lbl_temp = ''--'' @ glyph_deg @ ''C'',
      lbl_feels = ''Feels like --'' @ glyph_deg @ ''C'',
      lbl_descr = glyph_dash,
      stat_humidity = glyph_humidity @ '' Humidity: '' @ glyph_dash,
      stat_wind = glyph_wind @ '' Wind: '' @ glyph_dash,
      stat_pressure = glyph_pressure @ '' Pressure: '' @ glyph_dash,
      stat_visibility = glyph_visibility @ '' Visibility: '' @ glyph_dash,
      sun_canvas = [],
      sunrise_label = ''Sunrise: --:--'',
      sunset_label = ''Sunset: --:--'',
      hourly_container = [],
      status_label = ''Ready'',
      weather_canvas = canvas_init,
      queue = [],
      current_data = PNone,
      search_var = ''New York,US'',
      timers = [(200, OnSearch)],
      workers = [],
      unplaced_labels = []\<rparr>"

definition set_status :: "string \<Rightarrow> dashboard \<Rightarrow> dashboard" where
  "set_status text s = s\<lparr>status_label := text\<rparr>"

text \<open>\<^verbatim>\<open>self.after(ms, callback)\<close>.\<close>

definition after :: "nat \<Rightarrow> callback \<Rightarrow> dashboard \<Rightarrow> dashboard" where
  "after ms cb s = s\<lparr>timers := timers s @ [(ms, cb)]\<rparr>"

text \<open>
  A statement sequence that may raise: an action returns the exception or a value,
  together with the state it reached. \<open>bnd\<close> runs the next statement only after a
  normal return; \<open>compute\<close> is an expression without effect; \<open>act\<close> is an effect
  that cannot raise.
\<close>

type_synonym 'a action = "dashboard \<Rightarrow> (exn + 'a) \<times> dashboard"

definition bnd :: "'a action \<Rightarrow> ('a \<Rightarrow> 'b action) \<Rightarrow> 'b action" where
  "bnd m f s = (case m s of (Inl e, s') \<Rightarrow> (Inl e, s') | (Inr a, s') \<Rightarrow> f a s')"

definition compute :: "exn + 'a \<Rightarrow> 'a action" where
  "compute r s = (r, s)"

definition act :: "(dashboard \<Rightarrow> dashboard) \<Rightarrow> unit action" where
  "act f s = (Inr (), f s)"

text \<open>\<^verbatim>\<open>int(x)\<close> of a number: truncation towards zero.\<close>

definition py_int :: "rat \<Rightarrow> int" where
  "py_int x = (if 0 \<le> x then \<lfloor>x\<rfloor> else \<lceil>x\<rceil>)"

text \<open>
  The daylight fraction of \<^verbatim>\<open>_draw_sun_arc\<close> for int timestamps (lines 504-506):
  \<^verbatim>\<open>total\<close>, \<^verbatim>\<open>elapsed\<close> and \<^verbatim>\<open>pct\<close>. The subtractions, \<^verbatim>\<open>min\<close> and \<^verbatim>\<open>max\<close> are exact
  on ints; \<^verbatim>\<open>elapsed / total\<close> is the double nearest to the quotient; the \<^verbatim>\<open>else\<close>
  value is the int 0.
\<close>

definition daylight_pct :: "int \<Rightarrow> int \<Rightarrow> int \<Rightarrow> rat" where
  "daylight_pct sunrise_ts sunset_ts now =
     (let total = sunset_ts - sunrise_ts;
          elapsed = max 0 (min (now - sunrise_ts) total)
      in if total > 0 then round_double (of_int elapsed / of_int total) else 0)"

text \<open>
  \<^verbatim>\<open>_draw_sun_arc\<close> (lines 494-517). The geometry of the arc (width, height, radius)
  is left out; an item keeps the angles it is drawn with. \<^verbatim>\<open>pct * 180\<close>,
  \<^verbatim>\<open>180 + fill_extent\<close> and \<^verbatim>\<open>pct * 100\<close> are float operations when \<^verbatim>\<open>pct\<close> is a float
  and exact when it is the int 0. The subtraction raises on a value that is not a
  number, after the background arc is drawn, and the handler passes.
\<close>

definition draw_sun_arc ::
  "platform \<Rightarrow> pyval \<Rightarrow> pyval \<Rightarrow> pyval \<Rightarrow> dashboard \<Rightarrow> dashboard" where
  "draw_sun_arc P sunrise_ts sunset_ts tz_off s =
     (let s1 = s\<lparr>sun_canvas := [SunArc 180 180]\<rparr>
      in case (as_int sunrise_ts, as_int sunset_ts) of
           (Some sr, Some ss) \<Rightarrow>
             (if ss - sr > 0 then
                (let pct = daylight_pct sr ss (now_ts P);
                     fill_extent = round_double (pct * 180);
                     angle_deg = round_double (180 + fill_extent)
                 in s1\<lparr>sun_canvas := sun_canvas s1 @
                      [SunArc 180 fill_extent, SunDot angle_deg,
                       SunText (show_int (py_int (round_double (pct * 100))) @
                                ''% daylight'')]\<rparr>)
              else
                s1\<lparr>sun_canvas := sun_canvas s1 @
                     [SunArc 180 0, SunDot 180, SunText ''0% daylight'']\<rparr>)
         | _ \<Rightarrow>
           (case (as_num sunrise_ts, as_num sunset_ts) of
              (Some sr, Some ss) \<Rightarrow>
                s1\<lparr>sun_canvas := sun_canvas s1 @ float_sun_arc P sr ss\<rparr>
            | _ \<Rightarrow> s1))"

text \<open>One pass of the loop over the hourly entries (lines 470-488).\<close>

definition add_card :: "dashboard \<Rightarrow> dashboard" where
  "add_card s = s\<lparr>hourly_container := hourly_container s @ [[]]\<rparr>"

definition add_card_label :: "string \<Rightarrow> dashboard \<Rightarrow> dashboard" where
  "add_card_label text s =
     s\<lparr>hourly_container :=
         butlast (hourly_container s) @ [last (hourly_container s) @ [text]]\<rparr>"

definition hourly_icon :: "string \<Rightarrow> string" where
  "hourly_icon main =
     (if py_in ''rain'' main then icon_rain
      else if py_in ''cloud'' main then icon_cloud
      else if py_in ''snow'' main then icon_snow
      else if py_in ''fog'' main \<or> py_in ''mist'' main then icon_fog
      else icon_sun)"

definition hourly_card :: "platform \<Rightarrow> pyval \<Rightarrow> pyval \<Rightarrow> unit action" where
  "hourly_card P combined h =
     bnd (act add_card) (\<lambda>_.
     bnd (compute (dict_get h ''dt'' PNone)) (\<lambda>ts.
     bnd (compute (dict_get combined ''tz_offset'' (PInt 0))) (\<lambda>tz.
     bnd (compute (timestamp_to_local P ts tz)) (\<lambda>local_time.
     bnd (act (add_card_label (strftime_HM P local_time))) (\<lambda>_.
     bnd (compute (str_method ''lower'' (str_lower P)
            (safe_get h [KStr ''weather'', KInt 0, KStr ''main''] (PStr ''Clear'')))) (\<lambda>main.
     bnd (act (add_card_label (hourly_icon main))) (\<lambda>_.
     bnd (compute (dict_get h ''temp'' PNone)) (\<lambda>temp_h.
     bnd (compute (fmt_f P 0 temp_h)) (\<lambda>t.
     act (add_card_label (t @ glyph_deg @ ''C'')))))))))))"

fun hourly_loop :: "platform \<Rightarrow> pyval \<Rightarrow> pyval list \<Rightarrow> unit action" where
  "hourly_loop P combined [] s = (Inr (), s)"
| "hourly_loop P combined (h # hs) s =
     (case hourly_card P combined h s of
        (Inl e, s') \<Rightarrow> (Inl e, s')
      | (Inr u, s') \<Rightarrow> hourly_loop P combined hs s')"

text \<open>The body of the \<^verbatim>\<open>try\<close> in \<^verbatim>\<open>_update_ui_with_data\<close>, in four parts:
  lines 422-438, 440-451, 453-464 and 466-490.\<close>

definition update_header :: "platform \<Rightarrow> pyval \<Rightarrow> (pyval \<times> pyval \<times> pyval) action" where
  "update_header P combined =
     bnd (compute (dict_get combined ''location_name'' (PStr ''Unknown location''))) (\<lambda>loc_name.
     bnd (act (\<lambda>s. s\<lparr>lbl_location := py_str P loc_name\<rparr>)) (\<lambda>_.
     bnd (compute (dict_get combined ''tz_offset'' (PInt 0))) (\<lambda>tz_off.
     bnd (compute (dict_get combined ''current'' (PDict []))) (\<lambda>cur.
     bnd (compute (dict_get cur ''temp'' PNone)) (\<lambda>temp.
     bnd (compute (dict_get cur ''feels_like'' PNone)) (\<lambda>feels.
     bnd (compute (str_method ''title'' (str_title P)
            (safe_get cur [KStr ''weather'', KInt 0, KStr ''description''] (PStr [])))) (\<lambda>desc.
     bnd (compute (str_method ''lower'' (str_lower P)
            (safe_get cur [KStr ''weather'', KInt 0, KStr ''main''] (PStr ''Clear'')))) (\<lambda>cond_main.
     bnd (act (\<lambda>s. s\<lparr>weather_canvas := set_condition P (Some cond_main) (weather_canvas s)\<rparr>)) (\<lambda>_.
     bnd (if temp \<noteq> PNone
          then bnd (compute (fmt_f P 1 temp))
                 (\<lambda>t. act (\<lambda>s. s\<lparr>lbl_temp := t @ glyph_deg @ ''C''\<rparr>))
          else compute (Inr ())) (\<lambda>_.
     bnd (if feels \<noteq> PNone
          then bnd (compute (fmt_f P 1 feels))
                 (\<lambda>t. act (\<lambda>s. s\<lparr>lbl_feels := ''Feels like '' @ t @ glyph_deg @ ''C''\<rparr>))
          else compute (Inr ())) (\<lambda>_.
     bnd (act (\<lambda>s. s\<lparr>lbl_descr := (if desc = [] then glyph_dash else desc)\<rparr>)) (\<lambda>_.
     compute (Inr (loc_name, tz_off, cur))))))))))))))"

definition update_stats :: "platform \<Rightarrow> pyval \<Rightarrow> unit action" where
  "update_stats P cur =
     bnd (compute (dict_get cur ''humidity'' PNone)) (\<lambda>humidity.
     bnd (compute (dict_get cur ''wind_speed'' (PInt 0))) (\<lambda>wind_speed.
     bnd (compute (dict_get cur ''pressure'' PNone)) (\<lambda>pressure.
     bnd (compute (dict_get cur ''visibility'' PNone)) (\<lambda>visibility.
     bnd (act (\<lambda>s. s\<lparr>stat_humidity :=
            glyph_humidity @ '' Humidity: '' @ py_str P humidity @ ''%''\<rparr>)) (\<lambda>_.
     bnd (act (\<lambda>s. s\<lparr>stat_wind :=
            glyph_wind @ '' Wind: '' @ fixed P 0 (meters_per_sec_to_kmh wind_speed)
              @ '' km/h''\<rparr>)) (\<lambda>_.
     bnd (act (\<lambda>s. s\<lparr>stat_pressure :=
            glyph_pressure @ '' Pressure: '' @ py_str P pressure @ '' hPa''\<rparr>)) (\<lambda>_.
     if visibility = PNone
     then act (\<lambda>s. s\<lparr>stat_visibility := glyph_visibility @ '' Visibility: '' @ glyph_dash\<rparr>)
     else bnd (compute (py_div_const visibility 1000)) (\<lambda>km.
          act (\<lambda>s. s\<lparr>stat_visibility :=
            glyph_visibility @ '' Visibility: '' @ fixed P 1 km @ '' km''\<rparr>)))))))))"

definition update_sun :: "platform \<Rightarrow> pyval \<Rightarrow> pyval \<Rightarrow> unit action" where
  "update_sun P cur tz_off =
     bnd (compute (dict_get cur ''sunrise'' PNone)) (\<lambda>sunrise.
     bnd (compute (dict_get cur ''sunset'' PNone)) (\<lambda>sunset.
     if truthy sunrise \<and> truthy sunset
     then
       bnd (compute (timestamp_to_local P sunrise tz_off)) (\<lambda>local_sunrise.
       bnd (compute (timestamp_to_local P sunset tz_off)) (\<lambda>local_sunset.
       bnd (act (\<lambda>s. s\<lparr>sunrise_label := ''Sunrise: '' @ strftime_HM P local_sunrise\<rparr>)) (\<lambda>_.
       bnd (act (\<lambda>s. s\<lparr>sunset_label := ''Sunset: '' @ strftime_HM P local_sunset\<rparr>)) (\<lambda>_.
       act (draw_sun_arc P sunrise sunset tz_off)))))
     else
       bnd (act (\<lambda>s. s\<lparr>sunrise_label := ''Sunrise: --:--''\<rparr>)) (\<lambda>_.
       bnd (act (\<lambda>s. s\<lparr>sunset_label := ''Sunset: --:--''\<rparr>)) (\<lambda>_.
       act (\<lambda>s. s\<lparr>sun_canvas := []\<rparr>)))))"

definition update_hourly :: "platform \<Rightarrow> pyval \<Rightarrow> pyval \<Rightarrow> unit action" where
  "update_hourly P combined loc_name =
     bnd (compute (dict_get combined ''hourly'' (PList []))) (\<lambda>all_hours.
     bnd (compute (slice12 P all_hours)) (\<lambda>hourly.
     bnd (act (\<lambda>s. s\<lparr>hourly_container := []\<rparr>)) (\<lambda>_.
     bnd (hourly_loop P combined hourly) (\<lambda>_.
     act (set_status (''Showing: '' @ py_str P loc_name))))))"

definition update_try :: "platform \<Rightarrow> pyval \<Rightarrow> unit action" where
  "update_try P combined =
     bnd (update_header P combined) (\<lambda>(loc_name, tz_off, cur).
     bnd (update_stats P cur) (\<lambda>_.
     bnd (update_sun P cur tz_off) (\<lambda>_.
     update_hourly P combined loc_name)))"

text \<open>\<^verbatim>\<open>_update_ui_with_data\<close> (lines 420-492): the handler turns any exception of the
  body into a status line, on the state the body had reached.\<close>

definition update_ui_with_data :: "platform \<Rightarrow> pyval \<Rightarrow> dashboard \<Rightarrow> dashboard" where
  "update_ui_with_data P combined s =
     (case update_try P combined s of
        (Inl e, s') \<Rightarrow> set_status (''UI update error: '' @ exn_str e) s'
      | (Inr u, s') \<Rightarrow> s')"

text \<open>\<^verbatim>\<open>_process_queue\<close> (lines 405-417); \<^verbatim>\<open>get_nowait\<close> takes the oldest message.\<close>

definition process_queue :: "platform \<Rightarrow> dashboard \<Rightarrow> dashboard" where
  "process_queue P s =
     (case queue s of
        [] \<Rightarrow> after 100 ProcessQueue s
      | (typ, payload) # rest \<Rightarrow>
          (let s1 = s\<lparr>queue := rest\<rparr>
           in if typ = ''error'' then
                (let s2 = set_status (py_str P payload) s1
                 in s2\<lparr>unplaced_labels := unplaced_labels s2 @ [py_str P payload]\<rparr>)
              else
                update_ui_with_data P payload
                  (set_status ''Data loaded.'' (s1\<lparr>current_data := payload\<rparr>))))"

text \<open>\<^verbatim>\<open>on_search\<close> (lines 376-383); the worker thread is recorded, not run.\<close>

definition on_search :: "dashboard \<Rightarrow> dashboard" where
  "on_search s =
     (let loc = str_strip (search_var s)
      in if loc = [] then set_status ''Enter a location (city or City,Country).'' s
         else after 100 ProcessQueue
                ((set_status (''Searching: '' @ loc @ '' ...'') s)
                   \<lparr>workers := workers s @ [loc]\<rparr>))"

section \<open>The fetch worker\<close>

text \<open>
  The provider and the network are a function from the URL and the query parameters of
  a \<^verbatim>\<open>requests.get\<close> call to what the call does: it raises (connection failure, timeout)
  or returns a response.
\<close>

datatype get_result = Raises exn | Returns response

type_synonym provider = "string \<Rightarrow> (string \<times> pyval) list \<Rightarrow> get_result"

definition OWM_WEATHER_URL :: string where
  "OWM_WEATHER_URL = ''https://api.openweathermap.org/data/2.5/weather''"

definition OWM_ONECALL_URL :: string where
  "OWM_ONECALL_URL = ''https://api.openweathermap.org/data/2.5/onecall''"

definition raise_for_status :: "response \<Rightarrow> exn + unit" where
  "raise_for_status r =
     (if 400 \<le> status_code r \<and> status_code r < 600
      then Inl (HTTPError (error_text r) (Some r)) else Inr ())"

definition response_json :: "response \<Rightarrow> exn + pyval" where
  "response_json r =
     (case json_outcome r of Inl msg \<Rightarrow> Inl (Exn JSONDecodeError msg) | Inr v \<Rightarrow> Inr v)"

definition requests_get ::
  "provider \<Rightarrow> string \<Rightarrow> (string \<times> pyval) list \<Rightarrow> exn + response" where
  "requests_get net url params =
     (case net url params of Raises e \<Rightarrow> Inl e | Returns r \<Rightarrow> Inr r)"

text \<open>Sequencing of expressions that may raise.\<close>

definition andthen :: "exn + 'a \<Rightarrow> ('a \<Rightarrow> exn + 'b) \<Rightarrow> exn + 'b" where
  "andthen r f = (case r of Inl e \<Rightarrow> Inl e | Inr v \<Rightarrow> f v)"

text \<open>
  \<^verbatim>\<open>WeatherFetcher.fetch\<close> (lines 206-236). \<^verbatim>\<open>safe_get(data,'name','')\<close> passes the
  empty string as a third key, not as the default.
\<close>

definition fetch :: "platform \<Rightarrow> string \<Rightarrow> provider \<Rightarrow> string \<Rightarrow> exn + pyval" where
  "fetch P api_key net location =
     (if api_key = [] then Inl (Exn ValueError ''OpenWeatherMap API key not set.'')
      else
        andthen (requests_get net OWM_WEATHER_URL
                   [(''q'', PStr location), (''appid'', PStr api_key)]) (\<lambda>r.
        andthen (raise_for_status r) (\<lambda>_.
        andthen (response_json r) (\<lambda>data.
          let lat = safe_get data [KStr ''coord'', KStr ''lat''] PNone;
              lon = safe_get data [KStr ''coord'', KStr ''lon''] PNone;
              tz_offset = safe_get data [KStr ''timezone''] (PInt 0)
          in
        andthen (requests_get net OWM_ONECALL_URL
                   [(''lat'', lat), (''lon'', lon), (''exclude'', PStr ''minutely,alerts''),
                    (''appid'', PStr api_key), (''units'', PStr ''metric'')]) (\<lambda>r2.
        andthen (raise_for_status r2) (\<lambda>_.
        andthen (response_json r2) (\<lambda>oc.
        andthen (dict_get oc ''current'' (PDict [])) (\<lambda>current.
        andthen (dict_get oc ''hourly'' (PList [])) (\<lambda>hourly.
        andthen (dict_get oc ''daily'' (PList [])) (\<lambda>daily.
          Inr (PDict
            [(''location_name'',
                PStr (py_str P (safe_get data [KStr ''name'', KStr []] PNone) @ '', '' @
                      py_str P (safe_get data [KStr ''sys'', KStr ''country'', KStr []] PNone))),
             (''lat'', lat),
             (''lon'', lon),
             (''tz_offset'', tz_offset),
             (''current'', current),
             (''hourly'', hourly),
             (''daily'', daily),
             (''raw_weather'', data)])))))))))))"

text \<open>\<^verbatim>\<open>self.queue.put(item)\<close> on the unbounded queue.\<close>

definition queue_put :: "string \<times> pyval \<Rightarrow> dashboard \<Rightarrow> dashboard" where
  "queue_put item s = s\<lparr>queue := queue s @ [item]\<rparr>"

text \<open>The message of the \<^verbatim>\<open>HTTPError\<close> handler (lines 397-400).\<close>

definition http_error_msg :: "platform \<Rightarrow> string \<Rightarrow> response option \<Rightarrow> string" where
  "http_error_msg P txt resp =
     (case (case resp of
              None \<Rightarrow> Inl (no_attribute PNone ''json'')
            | Some r \<Rightarrow>
                andthen (response_json r) (\<lambda>body. dict_get body ''message'' (PStr txt))) of
        Inr m \<Rightarrow> py_str P m
      | Inl e \<Rightarrow> txt)"

text \<open>
  \<^verbatim>\<open>_background_fetch\<close> (lines 392-403), the body of the worker thread. The result
  says whether an exception leaves the body.
\<close>

definition background_fetch ::
  "platform \<Rightarrow> string \<Rightarrow> provider \<Rightarrow> string \<Rightarrow> unit action" where
  "background_fetch P api_key net loc s =
     (case fetch P api_key net loc of
        Inr data \<Rightarrow> act (queue_put (''ok'', data)) s
      | Inl (HTTPError txt resp) \<Rightarrow>
          act (queue_put (''error'', PStr (''API error: '' @ http_error_msg P txt resp))) s
      | Inl (Exn c txt) \<Rightarrow>
          act (queue_put (''error'', PStr (''Fetch error: '' @ exn_str (Exn c txt)))) s)"

section \<open>Favorites\<close>






section \<open>A concrete platform and concrete inputs\<close>

text \<open>
  One platform on which the model can be run: fixed-point texts rounded half to even,
  UTC as the local zone, timestamps accepted from the epoch to the end of year 9999,
  the clock stopped at 1700017500, and the type name standing for the text of a float,
  list or dict. The inputs it is run on are ASCII texts, int timestamps and a list of
  hourly entries, so the last four components are never asked.
\<close>

definition pad_left :: "nat \<Rightarrow> string \<Rightarrow> string" where
  "pad_left n s = replicate (n - length s) (CHR ''0'') @ s"

definition fixed_str :: "nat \<Rightarrow> rat \<Rightarrow> string" where
  "fixed_str n x =
     (let q = nat (round_half_even (\<bar>x\<bar> * 10 ^ n))
      in (if x < 0 then ''-'' else []) @ show_nat (q div 10 ^ n) @
         (if n = 0 then [] else ''.'' @ pad_left n (show_nat (q mod 10 ^ n))))"

definition hhmm_utc :: "datetime \<Rightarrow> string" where
  "hhmm_utc d =
     (let t = nat \<lfloor>case d of Aware x \<Rightarrow> x | Naive x \<Rightarrow> x\<rfloor>
      in pad_left 2 (show_nat ((t div 3600) mod 24)) @ '':'' @
         pad_left 2 (show_nat ((t div 60) mod 60)))"

definition sample_platform :: platform where
  "sample_platform =
     \<lparr>fixed = fixed_str,
      repr_of = (\<lambda>v. ''<'' @ type_name v @ ''>''),
      aware_ok = (\<lambda>x. 0 \<le> x \<and> x < 253402300800),
      naive_ok = (\<lambda>x. 0 \<le> x \<and> x < 253402300800),
      strftime_HM = hhmm_utc,
      now_ts = 1700017500,
      unicode_lower = (\<lambda>s. s),
      unicode_title = (\<lambda>s. s),
      float_sun_arc = (\<lambda>sunrise sunset. []),
      dict_slice_error = Exn TypeError (''unhashable type: '' @ quoted ''slice'')\<rparr>"

text \<open>The current conditions of the specification's scenario for \<^verbatim>\<open>"Paris,FR"\<close>.\<close>

definition paris_current :: pyval where
  "paris_current =
     PDict [(''temp'', PFloat (37 / 2)), (''feels_like'', PFloat (73 / 4)),
            (''humidity'', PInt 81), (''wind_speed'', PFloat (5 / 2)),
            (''pressure'', PInt 1012), (''visibility'', PInt 10000),
            (''sunrise'', PInt 1700000000), (''sunset'', PInt 1700035000),
            (''weather'', PList [PDict [(''main'', PStr ''Rain''),
                                       (''description'', PStr ''light rain'')]])]"

text \<open>The hourly entry of the hour \<open>i\<close> of a forecast.\<close>

definition hour_entry :: "nat \<Rightarrow> pyval" where
  "hour_entry i =
     PDict [(''dt'', PInt (1700017200 + 3600 * int i)), (''temp'', PFloat (37 / 2)),
            (''weather'', PList [PDict [(''main'', PStr ''Rain'')]])]"

text \<open>A snapshot with two hourly entries: the first has a time and a condition but no
  \<^verbatim>\<open>temp\<close>, the second is complete.\<close>

definition snapshot_without_hourly_temp :: pyval where
  "snapshot_without_hourly_temp =
     PDict [(''location_name'', PStr ''None, None''), (''lat'', PFloat (195 / 4)),
            (''lon'', PFloat (9 / 4)), (''tz_offset'', PInt 3600),
            (''current'', paris_current),
            (''hourly'', PList [PDict [(''dt'', PInt 1700017200),
                                      (''weather'', PList [PDict [(''main'', PStr ''Rain'')]])],
                               hour_entry 1]),
            (''daily'', PList []), (''raw_weather'', PDict [])]"

text \<open>A provider that answers both requests with status 200; its forecast has
  \<open>n\<close> hourly entries, one per hour.\<close>

definition paris_weather :: pyval where
  "paris_weather =
     PDict [(''coord'', PDict [(''lat'', PFloat (195 / 4)), (''lon'', PFloat (9 / 4))]),
            (''name'', PStr ''Paris''), (''sys'', PDict [(''country'', PStr ''FR'')]),
            (''timezone'', PInt 3600)]"

definition paris_provider :: "nat \<Rightarrow> provider" where
  "paris_provider n url params =
     (if url = OWM_WEATHER_URL then
        Returns (Response 200 []
          (Inr paris_weather))
      else
        Returns (Response 200 []
          (Inr (PDict [(''current'', paris_current),
                       (''hourly'', PList (map hour_entry [0..<n]))]))))"

text \<open>The snapshot \<^verbatim>\<open>fetch\<close> builds from the answers of that provider.\<close>

definition paris_snapshot :: "nat \<Rightarrow> pyval" where
  "paris_snapshot n =
     PDict [(''location_name'', PStr ''None, None''), (''lat'', PFloat (195 / 4)),
            (''lon'', PFloat (9 / 4)), (''tz_offset'', PInt 3600),
            (''current'', paris_current),
            (''hourly'', PList (map hour_entry [0..<n])),
            (''daily'', PList []), (''raw_weather'', paris_weather)]"

text \<open>A provider that answers the first request with 404 and a JSON error body.\<close>

definition not_found_provider :: provider where
  "not_found_provider url params =
     Returns (Response 404 ''404 Client Error: Not Found for url''
       (Inr (PDict [(''cod'', PStr ''404''), (''message'', PStr ''city not found'')])))"


text \<open>The hourly sequence a snapshot carries, empty when there is none.\<close>

definition snapshot_hourly :: "pyval \<Rightarrow> pyval list" where
  "snapshot_hourly snapshot =
     (case dict_get snapshot ''hourly'' (PList []) of Inr (PList hs) \<Rightarrow> hs | _ \<Rightarrow> [])"

text \<open>The hourly sequence of what \<^verbatim>\<open>fetch\<close> returned, empty when it raised.\<close>

definition fetched_hourly :: "exn + pyval \<Rightarrow> pyval list" where
  "fetched_hourly r = (case r of Inr snapshot \<Rightarrow> snapshot_hourly snapshot | Inl e \<Rightarrow> [])"

text \<open>The components of the window's state that are not widgets of the display.\<close>

definition control ::
  "dashboard \<Rightarrow>
     (string \<times> pyval) list \<times> pyval \<times> string \<times> (nat \<times> callback) list \<times> string list \<times> string list"
  where
  "control s =
     (queue s, current_data s, search_var s, timers s, workers s, unplaced_labels s)"

text \<open>An action keeps a component of the state when no run of it changes that
  component, whether it returns or raises.\<close>

definition keeps :: "(dashboard \<Rightarrow> 'x) \<Rightarrow> 'a action \<Rightarrow> bool" where
  "keeps g m \<longleftrightarrow> (\<forall>s. g (snd (m s)) = g s)"

section \<open>Properties of the renderer\<close>

lemma py_in_sublist: "py_in n h \<longleftrightarrow> sublist n h"
  by (induction h) (auto simp: sublist_Cons_right)

lemmas draw_defs =
  canvas_delete_all_def draw_cloud_def draw_rain_def draw_snow_def draw_fog_def
  draw_lightning_def draw_sun_def

lemma scene_items_inject: "scene_items a t = scene_items b t \<Longrightarrow> a = b"
  by (cases a; cases b; simp split: if_splits)

text \<open>
  C4. For every condition keyword, one call of \<^verbatim>\<open>_step\<close> leaves on the canvas the frame
  of exactly one of the six scenes, the one the substring rule names: rain or drizzle,
  else snow, else cloud, else fog, mist or haze, else thunder or storm, else the sun.
  The frame of no other scene is equal to it.
\<close>

theorem step_selects_scene:
  "canvas (step s) = scene_items (spec_scene (condition s)) (anim_t s) \<and>
   (\<forall>sc. canvas (step s) = scene_items sc (anim_t s) \<longrightarrow> sc = spec_scene (condition s))"
proof -
  have frame: "canvas (step s) = scene_items (spec_scene (condition s)) (anim_t s)"
    by (simp add: step_def spec_scene_def py_in_sublist Let_def draw_defs)
  moreover have "sc = spec_scene (condition s)"
    if "canvas (step s) = scene_items sc (anim_t s)" for sc
    using that frame scene_items_inject [of sc "anim_t s" "spec_scene (condition s)"] by simp
  ultimately show ?thesis by blast
qed

theorem step_selects_scene_witness:
  "canvas (step (canvas_init\<lparr>condition := ''thunderstorm with rain'', anim_t := 4\<rparr>))
     = [Cloud (1 / 2), Rain 4] \<and>
   canvas (step (canvas_init\<lparr>condition := ''thunderstorm'', anim_t := 4\<rparr>))
     = [Cloud (1 / 2), Lightning] \<and>
   spec_scene ''clear'' = SunScene"
proof -
  have a: "spec_scene ''thunderstorm with rain'' = RainScene"
    by (simp add: spec_scene_def py_in_sublist [symmetric])
  have b: "spec_scene ''thunderstorm'' = ThunderScene"
    by (simp add: spec_scene_def py_in_sublist [symmetric])
  have c: "spec_scene ''clear'' = SunScene"
    by (simp add: spec_scene_def py_in_sublist [symmetric])
  show ?thesis
    using step_selects_scene [of "canvas_init\<lparr>condition := ''thunderstorm with rain'', anim_t := 4\<rparr>"]
      step_selects_scene [of "canvas_init\<lparr>condition := ''thunderstorm'', anim_t := 4\<rparr>"]
    by (simp add: a b c canvas_init_def)
qed

subsection \<open>A change of condition while the animation runs\<close>

lemma run_anims: "run P (replicate k Anim) r = (anim_move ^^ k) r"
proof -
  have "do_move P Anim = anim_move" by (rule ext) simp
  then show ?thesis by (simp add: run_def fold_replicate)
qed

lemma five_moves:
  "(anim_move ^^ 5) r = anim_move (anim_move (anim_move (anim_move (anim_move r))))"
  by (simp add: eval_nat_numeral)

text \<open>One turn of the loop, from a position before the draw and from the sleep.\<close>

lemma iteration_before_draw:
  assumes "drawing_next r" "mpc r = Idle" "\<not> stop (shared r)"
  shows "ticks ((anim_move ^^ 5) r) = ticks r @ [anim_t (shared r)] \<and>
         anim_t (shared ((anim_move ^^ 5) r)) = anim_t (shared r) + 1 \<and>
         drawing_next ((anim_move ^^ 5) r) \<and> mpc ((anim_move ^^ 5) r) = Idle \<and>
         \<not> stop (shared ((anim_move ^^ 5) r))"
  using assms unfolding five_moves
  by (cases "apc r") (simp_all add: anim_move_def drawing_next_def)

lemma iteration_asleep:
  assumes "apc r = Asleep" "mpc r = Idle" "\<not> stop (shared r)"
  shows "ticks ((anim_move ^^ 5) r) = ticks r @ [anim_t (shared r) + 1] \<and>
         anim_t (shared ((anim_move ^^ 5) r)) = anim_t (shared r) + 1 \<and>
         apc ((anim_move ^^ 5) r) = Asleep \<and> mpc ((anim_move ^^ 5) r) = Idle \<and>
         \<not> stop (shared ((anim_move ^^ 5) r))"
  using assms unfolding five_moves by (simp add: anim_move_def)

lemma iterations_before_draw:
  assumes "drawing_next r" "mpc r = Idle" "\<not> stop (shared r)"
  shows "ticks (((anim_move ^^ 5) ^^ n) r)
           = ticks r @ [anim_t (shared r)..<anim_t (shared r) + n] \<and>
         anim_t (shared (((anim_move ^^ 5) ^^ n) r)) = anim_t (shared r) + n \<and>
         drawing_next (((anim_move ^^ 5) ^^ n) r) \<and> mpc (((anim_move ^^ 5) ^^ n) r) = Idle \<and>
         \<not> stop (shared (((anim_move ^^ 5) ^^ n) r))"
proof (induction n)
  case 0
  from assms show ?case by simp
next
  case (Suc n)
  let ?r = "((anim_move ^^ 5) ^^ n) r"
  from Suc iteration_before_draw [of ?r] show ?case by simp
qed

lemma iterations_asleep:
  assumes "apc r = Asleep" "mpc r = Idle" "\<not> stop (shared r)"
  shows "ticks (((anim_move ^^ 5) ^^ n) r)
           = ticks r @ [anim_t (shared r) + 1..<anim_t (shared r) + 1 + n] \<and>
         anim_t (shared (((anim_move ^^ 5) ^^ n) r)) = anim_t (shared r) + n \<and>
         apc (((anim_move ^^ 5) ^^ n) r) = Asleep \<and> mpc (((anim_move ^^ 5) ^^ n) r) = Idle \<and>
         \<not> stop (shared (((anim_move ^^ 5) ^^ n) r))"
proof (induction n)
  case 0
  from assms show ?case by simp
next
  case (Suc n)
  let ?r = "((anim_move ^^ 5) ^^ n) r"
  from Suc iteration_asleep [of ?r] show ?case by simp
qed

lemma call_runs_set_condition:
  "mpc r = Idle \<Longrightarrow>
     run P [Call c, Main, Main] r = r\<lparr>shared := set_condition P c (shared r)\<rparr>"
  by (simp add: run_def call_set_condition_def main_move_def set_condition_def
        canvas_delete_all_def)

lemma ticks_after_change:
  assumes "mpc r = Idle" "\<not> stop (shared r)"
  shows "(drawing_next r \<longrightarrow>
            ticks (run P (replicate (5 * n) Anim) (run P [Call c, Main, Main] r))
              = ticks r @ [0..<n]) \<and>
         (apc r = Asleep \<longrightarrow>
            ticks (run P (replicate (5 * n) Anim) (run P [Call c, Main, Main] r))
              = ticks r @ [1..<Suc n])"
proof -
  let ?r = "r\<lparr>shared := set_condition P c (shared r)\<rparr>"
  have same: "run P (replicate (5 * n) Anim) (run P [Call c, Main, Main] r)
      = ((anim_move ^^ 5) ^^ n) ?r"
    using assms(1) by (simp add: call_runs_set_condition run_anims funpow_mult)
  have facts: "mpc ?r = Idle" "\<not> stop (shared ?r)" "anim_t (shared ?r) = 0" "ticks ?r = ticks r"
    using assms by (simp_all add: set_condition_def canvas_delete_all_def)
  have "ticks (((anim_move ^^ 5) ^^ n) ?r) = ticks r @ [0..<n]" if "drawing_next r"
  proof -
    from that have "drawing_next ?r" by (simp add: drawing_next_def)
    from iterations_before_draw [OF this facts(1,2), of n] facts show ?thesis by simp
  qed
  moreover have "ticks (((anim_move ^^ 5) ^^ n) ?r) = ticks r @ [1..<Suc n]" if "apc r = Asleep"
  proof -
    from that have "apc ?r = Asleep" by simp
    from iterations_asleep [OF this facts(1,2), of n] facts show ?thesis by simp
  qed
  ultimately show ?thesis using same by simp
qed

text \<open>
  C8, as the specification states it, fails: the animation thread is in the sleep of
  the turn that drew tick 37 when the window's thread changes the condition to
  \<^verbatim>\<open>"Rain"\<close>. The thread then adds one to the counter that was reset, and the first
  frame of the rain scene is drawn at tick 1, not 0.
\<close>

theorem reset_during_sleep_draws_at_one:
  "ticks (run sample_platform
            [Call (Some ''Rain''), Main, Main, Anim, Anim, Anim, Anim, Anim]
            (renderer_init\<lparr>shared := canvas_init\<lparr>anim_t := 37\<rparr>, apc := Asleep\<rparr>)) = [1] \<and>
   canvas (shared (run sample_platform
            [Call (Some ''Rain''), Main, Main, Anim, Anim, Anim, Anim, Anim]
            (renderer_init\<lparr>shared := canvas_init\<lparr>anim_t := 37\<rparr>, apc := Asleep\<rparr>)))
     = [Cloud (1 / 2), Rain 1]"
  by (simp add: run_def call_set_condition_def main_move_def anim_move_def renderer_init_def
        canvas_init_def canvas_delete_all_def str_lower_def str_or_def is_ascii_def
        lower_char_def step_def Let_def draw_defs)

text \<open>
  C8, amended. Whatever the renderer's state and whatever the new condition,
  \<^verbatim>\<open>set_condition\<close> stores the lowercased condition (\<^verbatim>\<open>"clear"\<close> when the value is
  \<^verbatim>\<open>None\<close> or empty), sets the tick counter to 0 and clears the canvas, and a call
  that the animation thread does not interleave with does just that. The frames drawn
  after the call count their ticks from 0 when the call came while the animation thread
  was between its increment and its next draw, and from 1 when the call came while the
  thread was asleep after a draw. (A call that comes inside the thread's increment is
  not covered.)
\<close>

theorem set_condition_restarts_ticks:
  "condition (set_condition P c s) =
     (if c = None \<or> c = Some [] then ''clear'' else str_lower P (the c)) \<and>
   anim_t (set_condition P c s) = 0 \<and>
   canvas (set_condition P c s) = [] \<and>
   stop (set_condition P c s) = stop s \<and>
   (mpc r = Idle \<longrightarrow>
      run P [Call c, Main, Main] r = r\<lparr>shared := set_condition P c (shared r)\<rparr>) \<and>
   (mpc r = Idle \<and> \<not> stop (shared r) \<and> drawing_next r \<longrightarrow>
      ticks (run P (replicate (5 * n) Anim) (run P [Call c, Main, Main] r))
        = ticks r @ [0..<n]) \<and>
   (mpc r = Idle \<and> \<not> stop (shared r) \<and> apc r = Asleep \<longrightarrow>
      ticks (run P (replicate (5 * n) Anim) (run P [Call c, Main, Main] r))
        = ticks r @ [1..<Suc n])"
proof -
  have clear: "str_lower P ''clear'' = ''clear''"
    by (simp add: str_lower_def is_ascii_def lower_char_def)
  have cond: "condition (set_condition P c s) =
      (if c = None \<or> c = Some [] then ''clear'' else str_lower P (the c))"
    by (cases c) (simp_all add: set_condition_def canvas_delete_all_def str_or_def clear)
  have rest: "anim_t (set_condition P c s) = 0" "canvas (set_condition P c s) = []"
    "stop (set_condition P c s) = stop s"
    by (simp_all add: set_condition_def canvas_delete_all_def)
  show ?thesis
    using cond rest call_runs_set_condition [of r P c] ticks_after_change [of r P n c]
    by blast
qed

theorem set_condition_restarts_ticks_witness:
  "condition (set_condition sample_platform (Some ''Rain'')
     (canvas_init\<lparr>anim_t := 37, canvas := [Sun 36]\<rparr>)) = ''rain'' \<and>
   ticks (run sample_platform (replicate (5 * 3) Anim)
     (run sample_platform [Call (Some ''Rain''), Main, Main]
        (renderer_init\<lparr>shared := canvas_init\<lparr>anim_t := 37, canvas := [Sun 36]\<rparr>\<rparr>)))
     = [0, 1, 2] \<and>
   ticks (run sample_platform (replicate (5 * 3) Anim)
     (run sample_platform [Call (Some ''Rain''), Main, Main]
        (renderer_init\<lparr>shared := canvas_init\<lparr>anim_t := 37, canvas := [Sun 36]\<rparr>,
                        apc := Asleep\<rparr>)))
     = [1, 2, 3]"
proof -
  let ?s = "canvas_init\<lparr>anim_t := 37, canvas := [Sun 36]\<rparr>"
  let ?r0 = "renderer_init\<lparr>shared := ?s\<rparr>"
  let ?r1 = "renderer_init\<lparr>shared := ?s, apc := Asleep\<rparr>"
  have before: "mpc ?r0 = Idle \<and> \<not> stop (shared ?r0) \<and> drawing_next ?r0"
    by (simp add: renderer_init_def canvas_init_def drawing_next_def)
  have asleep: "mpc ?r1 = Idle \<and> \<not> stop (shared ?r1) \<and> apc ?r1 = Asleep"
    by (simp add: renderer_init_def canvas_init_def)
  have lowered: "str_lower sample_platform ''Rain'' = ''rain''"
    by (simp add: str_lower_def is_ascii_def lower_char_def)
  have "condition (set_condition sample_platform (Some ''Rain'') ?s) = ''rain''"
    using set_condition_restarts_ticks [of sample_platform "Some ''Rain''" ?s ?r0 3] lowered
    by simp
  moreover have "ticks (run sample_platform (replicate (5 * 3) Anim)
      (run sample_platform [Call (Some ''Rain''), Main, Main] ?r0)) = ticks ?r0 @ [0..<3]"
    using set_condition_restarts_ticks [of sample_platform "Some ''Rain''" ?s ?r0 3] before
    by blast
  moreover have "ticks (run sample_platform (replicate (5 * 3) Anim)
      (run sample_platform [Call (Some ''Rain''), Main, Main] ?r1)) = ticks ?r1 @ [1..<Suc 3]"
    using set_condition_restarts_ticks [of sample_platform "Some ''Rain''" ?s ?r1 3] asleep
    by blast
  moreover have "ticks ?r0 @ [0..<3] = [0, 1, 2]" "ticks ?r1 @ [1..<Suc 3] = [1, 2, 3]"
    by (simp_all add: renderer_init_def upt_rec)
  ultimately show ?thesis by simp
qed

text \<open>The schedule the amended statement leaves out: the call comes after the thread
  has read 37 and before it stores 38, and the reset is overwritten.\<close>

lemma reset_inside_increment_is_lost:
  "anim_t (shared (run sample_platform [Anim, Call (Some ''Rain''), Main, Main, Anim]
     (renderer_init\<lparr>shared := canvas_init\<lparr>anim_t := 37\<rparr>, apc := Asleep\<rparr>))) = 38"
  by (simp add: run_def call_set_condition_def main_move_def anim_move_def renderer_init_def
        canvas_init_def canvas_delete_all_def)

section \<open>Properties of the fetch worker\<close>

text \<open>
  C1. Whatever the location, the provider's answers and the API key, the body of the
  worker thread returns normally (no exception leaves it) and the queue afterwards is
  the queue before with exactly one message appended: \<^verbatim>\<open>("ok", snapshot)\<close> when
  \<^verbatim>\<open>fetch\<close> returned the snapshot, \<^verbatim>\<open>("error", message)\<close> when it raised.
\<close>

theorem background_fetch_pushes_once:
  "\<exists>m. background_fetch P api_key net loc s = (Inr (), s\<lparr>queue := queue s @ [m]\<rparr>) \<and>
       (case fetch P api_key net loc of
          Inr snapshot \<Rightarrow> m = (''ok'', snapshot)
        | Inl e \<Rightarrow> \<exists>msg. m = (''error'', PStr msg))"
proof (cases "fetch P api_key net loc")
  case (Inr snapshot)
  then show ?thesis by (simp add: background_fetch_def act_def queue_put_def)
next
  case (Inl e)
  show ?thesis
  proof (cases e)
    case (HTTPError what resp)
    let ?m = "(''error'', PStr (''API error: '' @ http_error_msg P what resp))"
    from Inl HTTPError
    have "background_fetch P api_key net loc s = (Inr (), s\<lparr>queue := queue s @ [?m]\<rparr>)"
      by (simp add: background_fetch_def act_def queue_put_def)
    with Inl show ?thesis by (intro exI [of _ ?m]) simp
  next
    case (Exn c what)
    let ?m = "(''error'', PStr (''Fetch error: '' @ exn_str (Exn c what)))"
    from Inl Exn
    have "background_fetch P api_key net loc s = (Inr (), s\<lparr>queue := queue s @ [?m]\<rparr>)"
      by (simp add: background_fetch_def act_def queue_put_def)
    with Inl show ?thesis by (intro exI [of _ ?m]) simp
  qed
qed

text \<open>Two runs of the worker: without an API key, and for a location the provider
  does not know.\<close>

lemma background_fetch_without_key:
  "background_fetch P [] net loc s =
     (Inr (), s\<lparr>queue := queue s @
        [(''error'', PStr ''Fetch error: OpenWeatherMap API key not set.'')]\<rparr>)"
  by (simp add: background_fetch_def fetch_def act_def queue_put_def)

lemma background_fetch_not_found:
  "background_fetch P ''demo-key'' not_found_provider ''Atlantis'' s =
     (Inr (), s\<lparr>queue := queue s @ [(''error'', PStr ''API error: city not found'')]\<rparr>)"
  by (simp add: background_fetch_def fetch_def act_def queue_put_def not_found_provider_def
        requests_get_def andthen_def raise_for_status_def http_error_msg_def response_json_def
        dict_get_def py_str_def)

section \<open>What an update of the display leaves alone\<close>

lemma keeps_bnd: "keeps g m \<Longrightarrow> (\<And>a. keeps g (f a)) \<Longrightarrow> keeps g (bnd m f)"
  by (auto simp: keeps_def bnd_def split: prod.splits sum.splits) (metis snd_conv)+

lemma keeps_compute: "keeps g (compute r)"
  by (simp add: keeps_def compute_def)

lemma keeps_act: "(\<And>s. g (f s) = g s) \<Longrightarrow> keeps g (act f)"
  by (simp add: keeps_def act_def)

lemma keeps_if: "keeps g a \<Longrightarrow> keeps g b \<Longrightarrow> keeps g (if c then a else b)"
  by simp

lemma keeps_triple:
  "(\<And>a b c. keeps g (f a b c)) \<Longrightarrow> keeps g (case p of (a, b, c) \<Rightarrow> f a b c)"
  by (cases p) simp

lemmas keeps_intros = keeps_bnd keeps_compute keeps_act keeps_if

lemma keeps_loop:
  assumes "\<And>h. keeps g (hourly_card P c h)"
  shows "keeps g (hourly_loop P c hs)"
  unfolding keeps_def
proof (induction hs)
  case Nil
  show ?case by simp
next
  case (Cons h hs)
  show ?case
  proof
    fix s
    obtain r s' where run: "hourly_card P c h s = (r, s')"
      by (cases "hourly_card P c h s")
    with assms [of h] have "g s' = g s"
      by (simp add: keeps_def) (metis snd_conv)
    with run Cons show "g (snd (hourly_loop P c (h # hs) s)) = g s"
      by (cases r) simp_all
  qed
qed

lemma control_header: "keeps control (update_header P c)"
  unfolding update_header_def by (intro keeps_intros) (simp_all add: control_def)

lemma control_stats: "keeps control (update_stats P c)"
  unfolding update_stats_def by (intro keeps_intros) (simp_all add: control_def)

lemma control_draw_sun_arc: "control (draw_sun_arc P a b c s) = control s"
  by (simp add: draw_sun_arc_def control_def Let_def split: option.splits)

lemma control_sun: "keeps control (update_sun P c tz)"
  unfolding update_sun_def
  by (intro keeps_intros) (simp_all add: control_draw_sun_arc, simp_all add: control_def)

lemma control_card: "keeps control (hourly_card P c h)"
  unfolding hourly_card_def
  by (intro keeps_intros) (simp_all add: add_card_def add_card_label_def control_def)

lemma control_hourly: "keeps control (update_hourly P c l)"
  unfolding update_hourly_def
  by (intro keeps_intros keeps_loop control_card) (simp_all add: set_status_def control_def)

lemma control_try: "keeps control (update_try P c)"
  unfolding update_try_def
  by (intro keeps_intros keeps_triple control_header control_stats control_sun control_hourly)

lemma control_update_ui: "control (update_ui_with_data P c s) = control s"
proof -
  obtain r s' where run: "update_try P c s = (r, s')"
    by (cases "update_try P c s")
  with control_try [of P c] have "control s' = control s"
    by (simp add: keeps_def) (metis snd_conv)
  with run show ?thesis
    by (cases r) (simp_all add: update_ui_with_data_def set_status_def control_def)
qed

lemma update_ui_frame:
  "queue (update_ui_with_data P c s) = queue s"
  "current_data (update_ui_with_data P c s) = current_data s"
  "timers (update_ui_with_data P c s) = timers s"
  using control_update_ui [of P c s] by (simp_all add: control_def)

section \<open>Properties of the poller\<close>

text \<open>
  C2, as the specification states it, fails: after an invocation that took a message
  from the queue, an error or a snapshot, no call of the poller is pending.
\<close>

theorem poller_stops_after_message:
  "timers (process_queue sample_platform
     (dashboard_init\<lparr>queue := [(''error'', PStr ''API error: city not found'')],
                      timers := []\<rparr>)) = [] \<and>
   timers (process_queue sample_platform
     (dashboard_init\<lparr>queue := [(''ok'', snapshot_without_hourly_temp)],
                      timers := []\<rparr>)) = []"
  by (simp add: process_queue_def set_status_def Let_def update_ui_frame dashboard_init_def)

text \<open>
  C2, amended. An invocation of the poller schedules the next one, 100 ms later, exactly
  when it found the queue empty; after an invocation that took a message it schedules
  nothing. The polling is started again by the next search: \<^verbatim>\<open>on_search\<close> with a
  non-blank location schedules the poller.
\<close>

theorem poller_reschedules_when_empty:
  "timers (process_queue P s) =
     (if queue s = [] then timers s @ [(100, ProcessQueue)] else timers s) \<and>
   (str_strip (search_var s) \<noteq> [] \<longrightarrow>
      timers (on_search s) = timers s @ [(100, ProcessQueue)])"
proof -
  have "timers (process_queue P s) =
      (if queue s = [] then timers s @ [(100, ProcessQueue)] else timers s)"
    by (cases "queue s")
       (auto simp: process_queue_def after_def set_status_def Let_def update_ui_frame)
  moreover have "timers (on_search s) = timers s @ [(100, ProcessQueue)]"
    if "str_strip (search_var s) \<noteq> []"
    using that by (simp add: on_search_def after_def set_status_def Let_def)
  ultimately show ?thesis by blast
qed

theorem poller_reschedules_when_empty_witness:
  "queue dashboard_init = [] \<and>
   timers (process_queue sample_platform dashboard_init)
     = [(200, OnSearch), (100, ProcessQueue)] \<and>
   str_strip (search_var dashboard_init) \<noteq> [] \<and>
   timers (on_search dashboard_init) = [(200, OnSearch), (100, ProcessQueue)]"
  using poller_reschedules_when_empty [of sample_platform dashboard_init]
  by (simp add: dashboard_init_def str_strip_def is_space_def whitespace_def is_cont_def)

text \<open>A search box that holds only whitespace, here U+001F, a no-break space and a
  space, starts no search and schedules nothing.\<close>

lemma on_search_blank:
  "timers (on_search (s\<lparr>search_var := [CHR 0x1F, CHR 0xC2, CHR 0xA0, CHR 0x20]\<rparr>)) = timers s"
  by (simp add: on_search_def set_status_def str_strip_def is_space_def whitespace_def
        is_cont_def Let_def)

text \<open>
  C3. One invocation of the poller takes at most one message: the queue afterwards is
  the queue before without its first element. With two snapshots queued back to back,
  the first invocation stores the first and leaves the second in the queue, and the
  invocation after it stores the second.
\<close>

theorem process_queue_takes_one:
  "queue (process_queue P s) = tl (queue s) \<and>
   current_data (process_queue P (s\<lparr>queue := (''ok'', d1) # (''ok'', d2) # rest\<rparr>)) = d1 \<and>
   queue (process_queue P (s\<lparr>queue := (''ok'', d1) # (''ok'', d2) # rest\<rparr>))
     = (''ok'', d2) # rest \<and>
   current_data
     (process_queue P (process_queue P (s\<lparr>queue := (''ok'', d1) # (''ok'', d2) # rest\<rparr>)))
     = d2 \<and>
   queue (process_queue P (process_queue P (s\<lparr>queue := (''ok'', d1) # (''ok'', d2) # rest\<rparr>)))
     = rest"
proof -
  have one: "queue (process_queue P t) = tl (queue t)" for t
    by (cases "queue t")
       (auto simp: process_queue_def after_def set_status_def Let_def update_ui_frame)
  have cur: "current_data (process_queue P t) = d" if "queue t = (''ok'', d) # q" for t d q
    using that by (simp add: process_queue_def set_status_def Let_def update_ui_frame)
  let ?s = "s\<lparr>queue := (''ok'', d1) # (''ok'', d2) # rest\<rparr>"
  have first: "queue (process_queue P ?s) = (''ok'', d2) # rest"
    using one [of ?s] by simp
  have "current_data (process_queue P ?s) = d1"
    using cur [of ?s d1 "(''ok'', d2) # rest"] by simp
  moreover have "current_data (process_queue P (process_queue P ?s)) = d2"
    using cur [OF first] .
  moreover have "queue (process_queue P (process_queue P ?s)) = rest"
    using one [of "process_queue P ?s"] first by simp
  ultimately show ?thesis using one [of s] first by simp
qed

text \<open>
  C5. When the message the poller takes is an error, the status line becomes the
  carried text and nothing else of the display changes: location, temperature,
  feels-like, description, the four stats, the sun arc and its two labels, the hourly
  cards, the renderer and the stored snapshot are what they were. The label the
  handler creates for the text is never placed in the window.
\<close>

theorem error_message_changes_status_only:
  assumes "queue s = (''error'', PStr msg) # rest"
  shows "process_queue P s =
           s\<lparr>queue := rest, status_label := msg,
             unplaced_labels := unplaced_labels s @ [msg]\<rparr> \<and>
         status_label (process_queue P s) = msg \<and>
         lbl_location (process_queue P s) = lbl_location s \<and>
         lbl_temp (process_queue P s) = lbl_temp s \<and>
         lbl_feels (process_queue P s) = lbl_feels s \<and>
         lbl_descr (process_queue P s) = lbl_descr s \<and>
         stat_humidity (process_queue P s) = stat_humidity s \<and>
         stat_wind (process_queue P s) = stat_wind s \<and>
         stat_pressure (process_queue P s) = stat_pressure s \<and>
         stat_visibility (process_queue P s) = stat_visibility s \<and>
         sun_canvas (process_queue P s) = sun_canvas s \<and>
         sunrise_label (process_queue P s) = sunrise_label s \<and>
         sunset_label (process_queue P s) = sunset_label s \<and>
         hourly_container (process_queue P s) = hourly_container s \<and>
         weather_canvas (process_queue P s) = weather_canvas s \<and>
         current_data (process_queue P s) = current_data s"
proof -
  from assms have "process_queue P s =
      s\<lparr>queue := rest, status_label := msg, unplaced_labels := unplaced_labels s @ [msg]\<rparr>"
    by (simp add: process_queue_def set_status_def py_str_def Let_def)
  then show ?thesis by simp
qed

theorem error_message_changes_status_only_witness:
  "queue (dashboard_init\<lparr>queue := [(''error'', PStr ''API error: city not found'')]\<rparr>)
     = [(''error'', PStr ''API error: city not found'')] \<and>
   status_label (process_queue sample_platform
     (dashboard_init\<lparr>queue := [(''error'', PStr ''API error: city not found'')]\<rparr>))
     = ''API error: city not found'' \<and>
   lbl_temp (process_queue sample_platform
     (dashboard_init\<lparr>queue := [(''error'', PStr ''API error: city not found'')]\<rparr>))
     = ''--'' @ glyph_deg @ ''C'' \<and>
   current_data (process_queue sample_platform
     (dashboard_init\<lparr>queue := [(''error'', PStr ''API error: city not found'')]\<rparr>))
     = PNone"
  using error_message_changes_status_only
    [of "dashboard_init\<lparr>queue := [(''error'', PStr ''API error: city not found'')]\<rparr>"
        "''API error: city not found''" "[]" sample_platform]
  by (simp add: dashboard_init_def)

section \<open>Properties of the sun arc\<close>

lemma round_half_even_nonneg: "0 \<le> y \<Longrightarrow> 0 \<le> round_half_even y"
  by (auto simp: round_half_even_def Let_def)

lemma round_half_even_le: "y \<le> of_int N \<Longrightarrow> round_half_even y \<le> N"
proof -
  assume le: "y \<le> of_int N"
  then have f: "\<lfloor>y\<rfloor> \<le> N" by (simp add: floor_le_iff)
  show ?thesis
  proof (cases "\<lfloor>y\<rfloor> = N")
    case True
    with le have "y = of_int N" using of_int_floor_le [of y] by simp
    then show ?thesis by (simp add: round_half_even_def Let_def)
  next
    case False
    with f have "\<lfloor>y\<rfloor> + 1 \<le> N" by simp
    then show ?thesis by (auto simp: round_half_even_def Let_def)
  qed
qed

lemma round_half_even_small: "0 \<le> y \<Longrightarrow> y \<le> 1 / 2 \<Longrightarrow> round_half_even y = 0"
proof -
  assume "0 \<le> y" "y \<le> 1 / 2"
  then have "\<lfloor>y\<rfloor> = 0" by (simp add: floor_eq_iff)
  with \<open>y \<le> 1 / 2\<close> show ?thesis by (simp add: round_half_even_def Let_def)
qed

lemma pow2_pos: "0 < pow2 k"
  by (simp add: pow2_def)

lemma round_double_nonneg:
  assumes "0 \<le> x"
  shows "0 \<le> round_double x"
proof (cases "x = 0")
  case True
  then show ?thesis by (simp add: round_double_def)
next
  case False
  define u where "u = pow2 (max (binade \<bar>x\<bar>) (- 1022) - 52)"
  from False assms have pos: "0 < x" by simp
  then have rd: "round_double x = of_int (round_half_even (x / u)) * u"
    by (simp add: round_double_def Let_def u_def)
  have u: "0 < u" by (simp add: u_def pow2_pos)
  with pos have "0 \<le> x / u" by simp
  then have "0 \<le> round_half_even (x / u)" by (rule round_half_even_nonneg)
  with u rd show ?thesis by simp
qed

text \<open>Rounding to a double does not leave the unit interval.\<close>

lemma round_double_unit:
  assumes "0 \<le> x" "x \<le> 1"
  shows "0 \<le> round_double x \<and> round_double x \<le> 1"
proof (cases "x = 0")
  case True
  then show ?thesis by (simp add: round_double_def)
next
  case False
  define k where "k = max (binade \<bar>x\<bar>) (- 1022) - 52"
  define u where "u = pow2 k"
  from False assms have pos: "0 < x" by simp
  then have rd: "round_double x = of_int (round_half_even (x / u)) * u"
    by (simp add: round_double_def Let_def k_def u_def)
  have u: "0 < u" by (simp add: u_def pow2_pos)
  with pos have "0 \<le> x / u" by simp
  then have lo: "0 \<le> round_half_even (x / u)" by (rule round_half_even_nonneg)
  have hi: "of_int (round_half_even (x / u)) * u \<le> 1"
  proof (cases "k \<le> 0")
    case True
    then have inv: "1 / u = of_int (2 ^ nat (- k))"
      by (cases "k = 0") (simp_all add: u_def pow2_def)
    from assms u have "x / u \<le> 1 / u" by (simp add: divide_right_mono)
    with inv have "round_half_even (x / u) \<le> 2 ^ nat (- k)"
      by (intro round_half_even_le) simp
    then have "(of_int (round_half_even (x / u)) :: rat) \<le> of_int (2 ^ nat (- k))"
      by (simp only: of_int_le_iff)
    with inv have "(of_int (round_half_even (x / u)) :: rat) \<le> 1 / u" by simp
    with u show ?thesis by (simp add: pos_le_divide_eq)
  next
    case False
    then have "2 \<le> u"
    proof -
      from False have "0 < nat k" by simp
      then obtain m where "nat k = Suc m" by (cases "nat k") simp_all
      moreover have "(1::rat) \<le> 2 ^ m" by simp
      ultimately show ?thesis using False by (simp add: u_def pow2_def)
    qed
    with assms pos have "x / u \<le> 1 / 2"
      by (simp add: pos_divide_le_eq)
    with \<open>0 \<le> x / u\<close> have "round_half_even (x / u) = 0" by (rule round_half_even_small)
    then show ?thesis by simp
  qed
  from lo hi u rd show ?thesis by simp
qed

lemma clamp_quotient:
  fixes n sr ss :: rat
  assumes "sr < ss"
  shows "max 0 (min (n - sr) (ss - sr)) / (ss - sr) = max 0 (min 1 ((n - sr) / (ss - sr)))"
proof -
  from assms have t: "0 < ss - sr" by simp
  then show ?thesis by (auto simp: max_def min_def field_simps)
qed

lemma daylight_pct_eq:
  "sunrise < sunset \<Longrightarrow>
     daylight_pct sunrise sunset now =
       round_double
         (max 0 (min 1 ((of_int now - of_int sunrise) / (of_int sunset - of_int sunrise))))"
  using clamp_quotient [of "of_int sunrise" "of_int sunset" "of_int now"]
  by (simp add: daylight_pct_def Let_def of_int_max of_int_min)

lemma daylight_pct_zero: "sunset \<le> sunrise \<Longrightarrow> daylight_pct sunrise sunset now = 0"
  by (simp add: daylight_pct_def Let_def)

lemma daylight_pct_unit:
  "0 \<le> daylight_pct sunrise sunset now \<and> daylight_pct sunrise sunset now \<le> 1"
proof (cases "sunrise < sunset")
  case True
  then show ?thesis
    by (simp only: daylight_pct_eq) (rule round_double_unit, simp_all)
next
  case False
  then show ?thesis by (simp add: daylight_pct_zero)
qed

lemma draw_sun_arc_ints:
  "sun_canvas (draw_sun_arc P (PInt sunrise) (PInt sunset) tz s) =
     (if sunrise < sunset then
        [SunArc 180 180,
         SunArc 180 (round_double (daylight_pct sunrise sunset (now_ts P) * 180)),
         SunDot (round_double
                   (180 + round_double (daylight_pct sunrise sunset (now_ts P) * 180))),
         SunText (show_int \<lfloor>round_double (daylight_pct sunrise sunset (now_ts P) * 100)\<rfloor>
                  @ ''% daylight'')]
      else [SunArc 180 180, SunArc 180 0, SunDot 180, SunText ''0% daylight''])"
proof -
  have "0 \<le> daylight_pct sunrise sunset (now_ts P) * 100"
    using daylight_pct_unit [of sunrise sunset "now_ts P"] by simp
  then have "0 \<le> round_double (daylight_pct sunrise sunset (now_ts P) * 100)"
    by (rule round_double_nonneg)
  then show ?thesis by (simp add: draw_sun_arc_def Let_def py_int_def)
qed

lemma update_sun_draws:
  assumes "map_of kvs ''sunrise'' = Some (PInt sunrise)"
    and "map_of kvs ''sunset'' = Some (PInt sunset)"
    and "sunrise \<noteq> 0" "sunset \<noteq> 0"
    and "timestamp_to_local P (PInt sunrise) tz = Inr d1"
    and "timestamp_to_local P (PInt sunset) tz = Inr d2"
  shows "sun_canvas (snd (update_sun P (PDict kvs) tz s))
           = sun_canvas (draw_sun_arc P (PInt sunrise) (PInt sunset) tz s)"
  using assms
  by (simp add: update_sun_def bnd_def compute_def act_def dict_get_def draw_sun_arc_def Let_def)

lemma update_sun_guard:
  assumes "map_of kvs ''sunrise'' = Some (PInt sunrise)"
    and "map_of kvs ''sunset'' = Some (PInt sunset)"
    and "sunrise = 0 \<or> sunset = 0"
  shows "sun_canvas (snd (update_sun P (PDict kvs) tz s)) = []"
  using assms
  by (auto simp: update_sun_def bnd_def compute_def act_def dict_get_def)

text \<open>
  C9, as the specification states it, fails. With sunrise 1700000000, sunset 1700035000
  and the clock at 1700010150 the quotient is 29/100, the fraction the program
  computes is the double next below it, and the label reads 28. With sunrise 0 and
  sunset 35000 the arc is not drawn at all.
\<close>

theorem daylight_label_below_quotient:
  "max 0 (min 1 ((1700010150 - 1700000000) / (1700035000 - 1700000000))) = (29 / 100 :: rat) \<and>
   daylight_pct 1700000000 1700035000 1700010150 < 29 / 100 \<and>
   last (sun_canvas (draw_sun_arc (sample_platform\<lparr>now_ts := 1700010150\<rparr>)
      (PInt 1700000000) (PInt 1700035000) (PInt 3600) dashboard_init))
     = SunText ''28% daylight'' \<and>
   sun_canvas (snd (update_sun (sample_platform\<lparr>now_ts := 10150\<rparr>)
      (PDict [(''sunrise'', PInt 0), (''sunset'', PInt 35000)]) (PInt 0) dashboard_init)) = []"
proof -
  have "max 0 (min 1 ((1700010150 - 1700000000) / (1700035000 - 1700000000))) = (29 / 100 :: rat)"
    by simp
  moreover have "daylight_pct 1700000000 1700035000 1700010150 < 29 / 100"
    by code_simp
  moreover have "last (sun_canvas (draw_sun_arc (sample_platform\<lparr>now_ts := 1700010150\<rparr>)
      (PInt 1700000000) (PInt 1700035000) (PInt 3600) dashboard_init))
     = SunText ''28% daylight''"
    by code_simp
  moreover have "sun_canvas (snd (update_sun (sample_platform\<lparr>now_ts := 10150\<rparr>)
      (PDict [(''sunrise'', PInt 0), (''sunset'', PInt 35000)]) (PInt 0) dashboard_init)) = []"
    by (simp add: update_sun_def bnd_def compute_def act_def dict_get_def)
  ultimately show ?thesis by blast
qed

text \<open>
  C9, amended. For int timestamps \<^verbatim>\<open>_draw_sun_arc\<close> computes the daylight fraction as the
  double nearest to \<open>(now - sunrise) / (sunset - sunrise)\<close> clamped to the interval from
  0 to 1 when sunset is after sunrise, and as 0 when it is not; the fraction lies
  between 0 and 1. The filled arc's extent is the float product of the fraction and
  180, and the label shows the integer part of the float product of the fraction and
  100. The display gets these items when sunrise and sunset are both non-zero and their
  local times can be formed; when one of them is 0 the sun canvas is cleared instead.
\<close>

theorem daylight_fraction_displayed:
  "(sunrise < sunset \<longrightarrow>
      daylight_pct sunrise sunset now =
        round_double
          (max 0 (min 1 ((of_int now - of_int sunrise) / (of_int sunset - of_int sunrise))))) \<and>
   (sunset \<le> sunrise \<longrightarrow> daylight_pct sunrise sunset now = 0) \<and>
   0 \<le> daylight_pct sunrise sunset now \<and> daylight_pct sunrise sunset now \<le> 1 \<and>
   sun_canvas (draw_sun_arc P (PInt sunrise) (PInt sunset) tz s) =
     (if sunrise < sunset then
        [SunArc 180 180,
         SunArc 180 (round_double (daylight_pct sunrise sunset (now_ts P) * 180)),
         SunDot (round_double
                   (180 + round_double (daylight_pct sunrise sunset (now_ts P) * 180))),
         SunText (show_int \<lfloor>round_double (daylight_pct sunrise sunset (now_ts P) * 100)\<rfloor>
                  @ ''% daylight'')]
      else [SunArc 180 180, SunArc 180 0, SunDot 180, SunText ''0% daylight'']) \<and>
   (map_of kvs ''sunrise'' = Some (PInt sunrise) \<and> map_of kvs ''sunset'' = Some (PInt sunset) \<and>
    sunrise \<noteq> 0 \<and> sunset \<noteq> 0 \<and>
    timestamp_to_local P (PInt sunrise) tz = Inr d1 \<and>
    timestamp_to_local P (PInt sunset) tz = Inr d2 \<longrightarrow>
      sun_canvas (snd (update_sun P (PDict kvs) tz s))
        = sun_canvas (draw_sun_arc P (PInt sunrise) (PInt sunset) tz s)) \<and>
   (map_of kvs ''sunrise'' = Some (PInt sunrise) \<and> map_of kvs ''sunset'' = Some (PInt sunset) \<and>
    (sunrise = 0 \<or> sunset = 0) \<longrightarrow>
      sun_canvas (snd (update_sun P (PDict kvs) tz s)) = [])"
  using daylight_pct_eq [of sunrise sunset now] daylight_pct_zero [of sunset sunrise now]
    daylight_pct_unit [of sunrise sunset now] draw_sun_arc_ints [of P sunrise sunset tz s]
    update_sun_draws [of kvs sunrise sunset P tz d1 d2 s]
    update_sun_guard [of kvs sunrise sunset P tz s]
  by blast

theorem daylight_fraction_displayed_witness:
  "(1700000000 :: int) < 1700035000 \<and>
   daylight_pct 1700000000 1700035000 1700017500 = 1 / 2 \<and>
   sun_canvas (draw_sun_arc sample_platform (PInt 1700000000) (PInt 1700035000) (PInt 3600)
     dashboard_init)
     = [SunArc 180 180, SunArc 180 90, SunDot 270, SunText ''50% daylight''] \<and>
   sun_canvas (snd (update_sun sample_platform paris_current (PInt 3600) dashboard_init))
     = [SunArc 180 180, SunArc 180 90, SunDot 270, SunText ''50% daylight'']"
proof -
  let ?kvs = "[(''temp'', PFloat (37 / 2)), (''feels_like'', PFloat (73 / 4)),
            (''humidity'', PInt 81), (''wind_speed'', PFloat (5 / 2)),
            (''pressure'', PInt 1012), (''visibility'', PInt 10000),
            (''sunrise'', PInt 1700000000), (''sunset'', PInt 1700035000),
            (''weather'', PList [PDict [(''main'', PStr ''Rain''),
                                       (''description'', PStr ''light rain'')]])]"
  note shown = daylight_fraction_displayed
    [where sunrise = 1700000000 and sunset = 1700035000 and now = 1700017500
       and P = sample_platform and tz = "PInt 3600" and s = dashboard_init and kvs = ?kvs
       and ?d1.0 = "Aware 1700003600" and ?d2.0 = "Aware 1700038600"]
  have local_times:
    "timestamp_to_local sample_platform (PInt 1700000000) (PInt 3600) = Inr (Aware 1700003600)"
    "timestamp_to_local sample_platform (PInt 1700035000) (PInt 3600) = Inr (Aware 1700038600)"
    by (simp_all add: timestamp_to_local_def py_add_def fromtimestamp_utc_def
          sample_platform_def)
  have rounded: "round_double (1 / 2) = 1 / 2" "round_double 90 = 90" "round_double 270 = 270"
    "round_double 50 = 50"
    by code_simp+
  have now: "now_ts sample_platform = 1700017500"
    by (simp add: sample_platform_def)
  from shown have pct: "daylight_pct 1700000000 1700035000 1700017500 = 1 / 2"
    by (simp add: rounded)
  from shown have arc: "sun_canvas (draw_sun_arc sample_platform (PInt 1700000000)
      (PInt 1700035000) (PInt 3600) dashboard_init)
      = [SunArc 180 180, SunArc 180 90, SunDot 270, SunText ''50% daylight'']"
    by (simp add: now pct rounded show_int_def show_nat.simps)
  from shown local_times have "sun_canvas (snd (update_sun sample_platform (PDict ?kvs)
      (PInt 3600) dashboard_init))
      = sun_canvas (draw_sun_arc sample_platform (PInt 1700000000) (PInt 1700035000)
          (PInt 3600) dashboard_init)"
    by simp
  with pct arc show ?thesis by (simp add: paris_current_def)
qed

section \<open>Properties of the favorites\<close>




section \<open>Properties of the hourly forecast\<close>

lemma card_count:
  "length (hourly_container (snd (hourly_card P c h s))) = length (hourly_container s) + 1"
  by (simp add: hourly_card_def bnd_def compute_def act_def add_card_def add_card_label_def
        split: sum.splits prod.splits)

lemma loop_count:
  "length (hourly_container (snd (hourly_loop P c hs s)))
     \<le> length (hourly_container s) + length hs"
proof (induction hs arbitrary: s)
  case Nil
  show ?case by simp
next
  case (Cons h hs)
  obtain r s' where run: "hourly_card P c h s = (r, s')"
    by (cases "hourly_card P c h s")
  with card_count [of P c h s]
  have n: "length (hourly_container s') = length (hourly_container s) + 1" by simp
  show ?case
  proof (cases r)
    case (Inl e)
    with run n show ?thesis by simp
  next
    case (Inr u)
    with run n Cons [of s'] show ?thesis by simp
  qed
qed

lemma slice12_length: "slice12 P v = Inr hs \<Longrightarrow> length hs \<le> 12"
  by (auto simp: slice12_def split: pyval.splits)

lemma cards_header: "keeps hourly_container (update_header P c)"
  unfolding update_header_def by (intro keeps_intros) simp_all

lemma cards_stats: "keeps hourly_container (update_stats P c)"
  unfolding update_stats_def by (intro keeps_intros) simp_all

lemma cards_sun: "keeps hourly_container (update_sun P c tz)"
  unfolding update_sun_def
  by (intro keeps_intros) (simp_all add: draw_sun_arc_def Let_def split: option.splits)

lemma cards_hourly:
  "hourly_container (snd (update_hourly P c l s)) = hourly_container s \<or>
   length (hourly_container (snd (update_hourly P c l s))) \<le> 12"
proof (cases "dict_get c ''hourly'' (PList [])")
  case (Inl e)
  then show ?thesis by (simp add: update_hourly_def bnd_def compute_def)
next
  case (Inr all_hours)
  show ?thesis
  proof (cases "slice12 P all_hours")
    case (Inl e)
    with Inr show ?thesis by (simp add: update_hourly_def bnd_def compute_def)
  next
    case hs: (Inr hs)
    let ?s0 = "s\<lparr>hourly_container := []\<rparr>"
    obtain r s' where run: "hourly_loop P c hs ?s0 = (r, s')"
      by (cases "hourly_loop P c hs ?s0")
    with loop_count [of P c hs ?s0] slice12_length [OF hs]
    have "length (hourly_container s') \<le> 12" by simp
    with Inr hs run show ?thesis
      by (cases r) (simp_all add: update_hourly_def bnd_def compute_def act_def set_status_def)
  qed
qed


lemma bnd_rel:
  assumes "keeps g m" and "\<And>a t. R (g t) (g (snd (f a t)))" and "\<And>x. R x x"
  shows "R (g s) (g (snd (bnd m f s)))"
proof -
  obtain r s' where run: "m s = (r, s')" by (cases "m s")
  with assms(1) have same: "g s' = g s" by (simp add: keeps_def) (metis snd_conv)
  show ?thesis
  proof (cases r)
    case (Inl e)
    with run same assms(3) show ?thesis by (simp add: bnd_def)
  next
    case (Inr a)
    with run same assms(2) [of s' a] show ?thesis by (simp add: bnd_def)
  qed
qed

lemma cards_try:
  "hourly_container (snd (update_try P c s)) = hourly_container s \<or>
   length (hourly_container (snd (update_try P c s))) \<le> 12"
proof -
  let ?R = "\<lambda>x y :: string list list. y = x \<or> length y \<le> 12"
  have hourly: "?R (hourly_container t) (hourly_container (snd (update_hourly P c l t)))" for l t
    using cards_hourly [of P c l t] .
  have sun: "?R (hourly_container t)
      (hourly_container (snd (bnd (update_sun P cur tz) (\<lambda>_. update_hourly P c l) t)))"
    for cur tz l t
    by (rule bnd_rel [where R = ?R, OF cards_sun]) (simp_all add: hourly)
  have stats: "?R (hourly_container t)
      (hourly_container (snd (bnd (update_stats P cur)
         (\<lambda>_. bnd (update_sun P cur tz) (\<lambda>_. update_hourly P c l)) t)))"
    for cur tz l t
    by (rule bnd_rel [where R = ?R, OF cards_stats]) (simp_all add: sun)
  have "?R (hourly_container s) (hourly_container (snd (update_try P c s)))"
    unfolding update_try_def
  proof (rule bnd_rel [where R = ?R, OF cards_header])
    fix a :: "pyval \<times> pyval \<times> pyval" and t
    obtain l tz cur where a: "a = (l, tz, cur)" by (cases a)
    show "?R (hourly_container t)
        (hourly_container (snd ((case a of (loc_name, tz_off, cur) \<Rightarrow>
           bnd (update_stats P cur)
             (\<lambda>_. bnd (update_sun P cur tz_off) (\<lambda>_. update_hourly P c loc_name))) t)))"
      unfolding a prod.case by (rule stats)
  qed simp
  then show ?thesis .
qed

lemma cards_update_ui:
  "hourly_container (update_ui_with_data P c s) = hourly_container s \<or>
   length (hourly_container (update_ui_with_data P c s)) \<le> 12"
proof -
  obtain r s' where run: "update_try P c s = (r, s')" by (cases "update_try P c s")
  with cards_try [of P c s] show ?thesis
    by (cases r) (simp_all add: update_ui_with_data_def set_status_def)
qed

lemma andthen_Inr: "andthen r f = Inr v \<longleftrightarrow> (\<exists>a. r = Inr a \<and> f a = Inr v)"
  by (cases r) (simp_all add: andthen_def)

lemma requests_get_Inr: "requests_get net url ps = Inr r \<longleftrightarrow> net url ps = Returns r"
  by (simp add: requests_get_def split: get_result.splits)

lemma response_json_Inr: "response_json r = Inr v \<longleftrightarrow> json_outcome r = Inr v"
  by (simp add: response_json_def split: sum.splits)

lemma snapshot_hourly_of:
  "dict_get oc ''hourly'' (PList []) = Inr h \<Longrightarrow>
     snapshot_hourly oc = (case h of PList hs \<Rightarrow> hs | _ \<Rightarrow> [])"
  by (simp add: snapshot_hourly_def)

lemma snapshot_hourly_built:
  "snapshot_hourly (PDict [(''location_name'', a), (''lat'', b), (''lon'', c), (''tz_offset'', d),
      (''current'', e), (''hourly'', h), (''daily'', f), (''raw_weather'', g)])
     = (case h of PList hs \<Rightarrow> hs | _ \<Rightarrow> [])"
  by (simp add: snapshot_hourly_def dict_get_def)

lemma fetch_hourly:
  assumes "fetch P api_key net loc = Inr snapshot"
  shows "\<exists>params r2 oc. net OWM_ONECALL_URL params = Returns r2 \<and> json_outcome r2 = Inr oc \<and>
           snapshot_hourly snapshot = snapshot_hourly oc"
proof -
  from assms obtain params r2 oc h a b c d e f g where
    net: "net OWM_ONECALL_URL params = Returns r2" and body: "json_outcome r2 = Inr oc" and
    hourly: "dict_get oc ''hourly'' (PList []) = Inr h" and
    built: "snapshot = PDict [(''location_name'', a), (''lat'', b), (''lon'', c),
      (''tz_offset'', d), (''current'', e), (''hourly'', h), (''daily'', f),
      (''raw_weather'', g)]"
    by (auto simp: fetch_def andthen_Inr requests_get_Inr response_json_Inr Let_def
          split: if_splits)
  from built hourly have "snapshot_hourly snapshot = snapshot_hourly oc"
    by (simp add: snapshot_hourly_of snapshot_hourly_built)
  with net body show ?thesis by blast
qed

lemma fetch_paris:
  "api_key \<noteq> [] \<Longrightarrow> fetch P api_key (paris_provider n) loc = Inr (paris_snapshot n)"
  by (simp add: fetch_def paris_provider_def paris_snapshot_def paris_weather_def
       requests_get_def andthen_def raise_for_status_def response_json_def dict_get_def
       safe_get_def py_str_def OWM_WEATHER_URL_def OWM_ONECALL_URL_def Let_def)

lemma paris_snapshot_hourly: "snapshot_hourly (paris_snapshot n) = map hour_entry [0..<n]"
  by (simp add: paris_snapshot_def snapshot_hourly_def dict_get_def)

text \<open>
  C6, as the specification states it, fails: when the provider's forecast has 13 hourly
  entries, the snapshot \<^verbatim>\<open>fetch\<close> returns has all 13.
\<close>

theorem fetch_keeps_thirteen_hours:
  "fetch sample_platform ''demo-key'' (paris_provider 13) ''Paris,FR'' = Inr (paris_snapshot 13) \<and>
   length (fetched_hourly (fetch sample_platform ''demo-key'' (paris_provider 13) ''Paris,FR''))
     = 13 \<and>
   \<not> length (fetched_hourly (fetch sample_platform ''demo-key'' (paris_provider 13) ''Paris,FR''))
       \<le> 12"
  by (simp add: fetch_paris fetched_hourly_def paris_snapshot_hourly)

text \<open>
  C6, amended. A snapshot produced by \<^verbatim>\<open>fetch\<close> carries the hourly sequence of the
  provider's forecast as it is, of any length. The bound of 12 holds for the display:
  an update leaves at most 12 hourly cards, or the cards that were there when it stopped
  before the hourly part.
\<close>

theorem display_takes_twelve_hours:
  "(hourly_container (update_ui_with_data P snapshot s) = hourly_container s \<or>
    length (hourly_container (update_ui_with_data P snapshot s)) \<le> 12) \<and>
   (fetch P api_key net loc = Inr snapshot \<longrightarrow>
      (\<exists>params r2 oc. net OWM_ONECALL_URL params = Returns r2 \<and> json_outcome r2 = Inr oc \<and>
         snapshot_hourly snapshot = snapshot_hourly oc))"
  using cards_update_ui [of P snapshot s] fetch_hourly [of P api_key net loc snapshot]
  by blast

theorem display_takes_twelve_hours_witness:
  "fetch sample_platform ''demo-key'' (paris_provider 13) ''Paris,FR'' = Inr (paris_snapshot 13) \<and>
   length (snapshot_hourly (paris_snapshot 13)) = 13 \<and>
   length (hourly_container
     (update_ui_with_data sample_platform (paris_snapshot 13) dashboard_init)) \<le> 12 \<and>
   (\<exists>params r2 oc. paris_provider 13 OWM_ONECALL_URL params = Returns r2 \<and>
      json_outcome r2 = Inr oc \<and> snapshot_hourly (paris_snapshot 13) = snapshot_hourly oc)"
proof -
  have fetched: "fetch sample_platform ''demo-key'' (paris_provider 13) ''Paris,FR''
      = Inr (paris_snapshot 13)"
    by (simp add: fetch_paris)
  have empty: "hourly_container dashboard_init = []"
    by (simp add: dashboard_init_def)
  from display_takes_twelve_hours
    [of sample_platform "paris_snapshot 13" dashboard_init "''demo-key''" "paris_provider 13"
        "''Paris,FR''"] fetched empty
  show ?thesis by (auto simp: paris_snapshot_hourly)
qed

section \<open>An hourly entry without a temperature\<close>

text \<open>What the display shows for fields that the current conditions lack: the
  temperature labels keep their text, humidity and pressure show \<^verbatim>\<open>None\<close>, the wind
  shows 0 and the visibility a dash.\<close>

lemma absent_current_fields:
  "snd (update_stats P (PDict []) s) =
     s\<lparr>stat_humidity := glyph_humidity @ '' Humidity: None%'',
       stat_wind := glyph_wind @ '' Wind: '' @ fixed P 0 0 @ '' km/h'',
       stat_pressure := glyph_pressure @ '' Pressure: None hPa'',
       stat_visibility := glyph_visibility @ '' Visibility: '' @ glyph_dash\<rparr>"
  by (simp add: update_stats_def bnd_def compute_def act_def dict_get_def py_str_def
        meters_per_sec_to_kmh_def py_mul_const_def to_double_def round_double_def pow2_def
        int_too_large_def)

lemma bnd_returns: "fst (m s) = Inr a \<Longrightarrow> bnd m f s = f a (snd (m s))"
  by (cases "m s") (simp add: bnd_def)

lemma sample_local_time:
  "0 \<le> t \<Longrightarrow> t < 253402297200 \<Longrightarrow>
     timestamp_to_local sample_platform (PInt t) (PInt 3600) = Inr (Aware (of_int t + 3600))"
  by (simp add: timestamp_to_local_def py_add_def fromtimestamp_utc_def sample_platform_def)

lemma sample_header:
  "fst (update_header sample_platform snapshot_without_hourly_temp s)
     = Inr (PStr ''None, None'', PInt 3600, paris_current)"
  by (simp add: update_header_def snapshot_without_hourly_temp_def paris_current_def bnd_def
        compute_def act_def dict_get_def safe_get_def seq_index_def str_method_def fmt_f_def)

lemma sample_stats: "fst (update_stats sample_platform paris_current s) = Inr ()"
proof -
  have "to_double ''integer division result too large for a float'' (10000 / 1000) = Inr 10"
    by code_simp
  then show ?thesis
    by (simp add: update_stats_def paris_current_def bnd_def compute_def act_def dict_get_def
          py_div_const_def)
qed

lemma sample_sun: "fst (update_sun sample_platform paris_current (PInt 3600) s) = Inr ()"
  by (simp add: update_sun_def paris_current_def bnd_def compute_def act_def dict_get_def
        sample_local_time)

lemma sample_card:
  "hourly_card sample_platform snapshot_without_hourly_temp
     (PDict [(''dt'', PInt 1700017200), (''weather'', PList [PDict [(''main'', PStr ''Rain'')]])]) s
   = (Inl (Exn TypeError ''unsupported format string passed to NoneType.__format__''),
      s\<lparr>hourly_container := hourly_container s @ [[''04:00'', icon_rain]]\<rparr>)"
proof -
  have time: "strftime_HM sample_platform (Aware 1700020800) = ''04:00''"
    by (simp add: sample_platform_def hhmm_utc_def pad_left_def show_nat.simps Let_def)
  have icon: "hourly_icon (str_lower sample_platform ''Rain'') = icon_rain"
    by (simp add: hourly_icon_def str_lower_def is_ascii_def lower_char_def)
  show ?thesis
    using sample_local_time [of 1700017200]
    by (simp add: hourly_card_def snapshot_without_hourly_temp_def bnd_def compute_def act_def
          dict_get_def safe_get_def seq_index_def str_method_def fmt_f_def add_card_def
          add_card_label_def time icon)
qed

lemma sample_hourly:
  "update_hourly sample_platform snapshot_without_hourly_temp l s
   = (Inl (Exn TypeError ''unsupported format string passed to NoneType.__format__''),
      s\<lparr>hourly_container := [[''04:00'', icon_rain]]\<rparr>)"
proof -
  have hours: "dict_get snapshot_without_hourly_temp ''hourly'' (PList [])
      = Inr (PList [PDict [(''dt'', PInt 1700017200),
                           (''weather'', PList [PDict [(''main'', PStr ''Rain'')]])],
                    hour_entry 1])"
    by (simp add: snapshot_without_hourly_temp_def dict_get_def)
  show ?thesis
    by (simp add: update_hourly_def hours slice12_def bnd_def compute_def act_def sample_card)
qed

text \<open>
  C7. The claim holds for the fields of the current conditions and fails for the hourly
  temperature: for a snapshot whose first hourly entry has no \<^verbatim>\<open>temp\<close>, the format
  \<^verbatim>\<open>{temp_h:.0f}\<close> at line 488 raises, the update stops inside the first card, which
  keeps its time and icon labels only, the second entry gets no card, and the status
  line reports the error.
\<close>

theorem update_aborts_without_hourly_temp:
  "status_label (update_ui_with_data sample_platform snapshot_without_hourly_temp dashboard_init)
     = ''UI update error: unsupported format string passed to NoneType.__format__'' \<and>
   hourly_container
     (update_ui_with_data sample_platform snapshot_without_hourly_temp dashboard_init)
     = [[''04:00'', icon_rain]]"
  by (simp add: update_ui_with_data_def update_try_def bnd_returns [OF sample_header]
        bnd_returns [OF sample_stats] bnd_returns [OF sample_sun] sample_hourly set_status_def)

end
